theory Spec2Isabelle
  imports Complex_Main
begin

section \<open>Numbers of the program\<close>

text \<open>
  The values that \<^verbatim>\<open>main.js\<close> computes with are JavaScript numbers. They are modelled
  as the exact reals together with \<open>NaN\<close>, the one special value that the program writes
  itself (the survival probability of an age that the life table lacks). Arithmetic on
  finite values is exact: the rounding of IEEE doubles, overflow to an infinity and the
  sign of zero are outside this model; the benefit adjustment is modelled on doubles as
  well, further down. An operation with a \<open>NaN\<close> operand is \<open>NaN\<close>, and every comparison
  with \<open>NaN\<close> is false, as in JavaScript.
\<close>

datatype number = Fin real | NaN

fun js_add :: "number \<Rightarrow> number \<Rightarrow> number" where
  "js_add (Fin a) (Fin b) = Fin (a + b)"
| "js_add _ _ = NaN"

fun js_sub :: "number \<Rightarrow> number \<Rightarrow> number" where
  "js_sub (Fin a) (Fin b) = Fin (a - b)"
| "js_sub _ _ = NaN"

fun js_mul :: "number \<Rightarrow> number \<Rightarrow> number" where
  "js_mul (Fin a) (Fin b) = Fin (a * b)"
| "js_mul _ _ = NaN"

text \<open>
  Every division of the program has a divisor that is not zero: the literals 100, 12 and
  9, and \<open>baseNum\<close> under the guard \<open>baseNum > 0\<close>. A zero divisor would give an infinity
  in JavaScript; it has no value in this model and \<open>js_div\<close> is never applied to one.
\<close>

fun js_div :: "number \<Rightarrow> number \<Rightarrow> number" where
  "js_div (Fin a) (Fin b) = (if b = 0 then NaN else Fin (a / b))"
| "js_div _ _ = NaN"

fun js_lt :: "number \<Rightarrow> number \<Rightarrow> bool" where
  "js_lt (Fin a) (Fin b) = (a < b)"
| "js_lt _ _ = False"

fun js_le :: "number \<Rightarrow> number \<Rightarrow> bool" where
  "js_le (Fin a) (Fin b) = (a \<le> b)"
| "js_le _ _ = False"

fun js_gt :: "number \<Rightarrow> number \<Rightarrow> bool" where
  "js_gt (Fin a) (Fin b) = (a > b)"
| "js_gt _ _ = False"

fun js_ge :: "number \<Rightarrow> number \<Rightarrow> bool" where
  "js_ge (Fin a) (Fin b) = (a \<ge> b)"
| "js_ge _ _ = False"

text \<open>Strict equality \<^verbatim>\<open>===\<close> on numbers: \<open>NaN\<close> is not equal to itself.\<close>

fun js_eq :: "number \<Rightarrow> number \<Rightarrow> bool" where
  "js_eq (Fin a) (Fin b) = (a = b)"
| "js_eq _ _ = False"

text \<open>\<^verbatim>\<open>x || d\<close> on a number \<open>x\<close>: zero and \<open>NaN\<close> are falsy.\<close>

fun js_or :: "number \<Rightarrow> number \<Rightarrow> number" where
  "js_or (Fin a) d = (if a = 0 then d else Fin a)"
| "js_or NaN d = d"

section \<open>The benefit adjustment\<close>

text \<open>\<^verbatim>\<open>computeAdjustedBenefit(fullBenefit, retireAge)\<close>, lines 387 to 404.\<close>

definition computeAdjustedBenefit :: "number \<Rightarrow> number \<Rightarrow> number" where
  "computeAdjustedBenefit fullBenefit retireAge =
     (let FRA = Fin 67 in
      if js_eq retireAge FRA then fullBenefit
      else if js_gt retireAge FRA then
        (let yearsDelayed = js_sub retireAge FRA
         in js_mul fullBenefit (js_add (Fin 1) (js_mul (Fin 0.08) yearsDelayed)))
      else
        (let monthsEarly = js_mul (js_sub FRA retireAge) (Fin 12);
             perMonthFirst = js_div (js_div (Fin 5) (Fin 9)) (Fin 100);
             perMonthAfter = js_div (js_div (Fin 5) (Fin 12)) (Fin 100)
         in if js_le monthsEarly (Fin 36) then
              (let reduction = js_mul monthsEarly perMonthFirst
               in js_mul fullBenefit (js_sub (Fin 1) reduction))
            else
              (let reduction = js_add (js_mul (Fin 36) perMonthFirst)
                                      (js_mul (js_sub monthsEarly (Fin 36)) perMonthAfter)
               in js_mul fullBenefit (js_sub (Fin 1) reduction))))"

text \<open>
  The reduction of an early retirement in the words of the specification:
  \<open>min(monthsEarly, 36) * 5/900 + max(0, monthsEarly - 36) * 5/1200\<close>.
\<close>

definition totalReductionFraction :: "real \<Rightarrow> real" where
  "totalReductionFraction monthsEarly =
     min monthsEarly 36 * 5 / 900 + max 0 (monthsEarly - 36) * 5 / 1200"

section \<open>The benefit adjustment in doubles\<close>

text \<open>
  A JavaScript number is an IEEE 754 double. Where a property of
  \<^verbatim>\<open>computeAdjustedBenefit\<close> depends on the rounding, the function is modelled a second
  time with the arithmetic of doubles. A real is rounded to the nearest multiple of the
  quantum of its binade, ties to the even multiple: the significand has 53 bits, the
  exponent runs from -1022 to 1023, and below \<open>2 powi (- 1022)\<close> the quantum stays at
  \<open>2 powi (- 1074)\<close> (subnormal numbers). A result that reaches \<open>2 powi 1024\<close> in
  magnitude is an infinity. The sign of zero is not modelled: the function never divides
  by a computed value, and the two zeros compare equal.
\<close>

definition roundEven :: "real \<Rightarrow> int" where
  "roundEven x =
     (let f = \<lfloor>x\<rfloor>; d = x - of_int f
      in if d < 1 / 2 then f else if 1 / 2 < d then f + 1 else if even f then f else f + 1)"

fun expoFrom :: "nat \<Rightarrow> int \<Rightarrow> real \<Rightarrow> int" where
  "expoFrom 0 e x = e"
| "expoFrom (Suc n) e x = (if x < 2 powi (e + 1) then e else expoFrom n (e + 1) x)"

definition expo :: "real \<Rightarrow> int" where
  "expo x = expoFrom 2045 (- 1022) \<bar>x\<bar>"

text \<open>\<open>flReal x\<close> is \<open>x\<close> rounded as if no number were too large, \<open>fl x\<close> the double.\<close>

definition flReal :: "real \<Rightarrow> real" where
  "flReal x = 2 powi (expo x - 52) * of_int (roundEven (x / 2 powi (expo x - 52)))"

datatype double = Finite real | PInf | NInf | DNaN

definition fl :: "real \<Rightarrow> double" where
  "fl x =
     (let r = flReal x
      in if 2 powi 1024 \<le> r then PInf else if r \<le> - (2 powi 1024) then NInf else Finite r)"

text \<open>
  The operations of JavaScript on doubles. A division by zero gives an infinity or \<open>NaN\<close>
  by the sign of the zero; it is \<open>DNaN\<close> here and does not occur, the divisors of the
  function being the literals 9, 12 and 100.
\<close>

fun d_neg :: "double \<Rightarrow> double" where
  "d_neg (Finite a) = Finite (- a)"
| "d_neg PInf = NInf"
| "d_neg NInf = PInf"
| "d_neg DNaN = DNaN"

fun d_add :: "double \<Rightarrow> double \<Rightarrow> double" where
  "d_add (Finite a) (Finite b) = fl (a + b)"
| "d_add DNaN y = DNaN"
| "d_add x DNaN = DNaN"
| "d_add PInf NInf = DNaN"
| "d_add NInf PInf = DNaN"
| "d_add PInf y = PInf"
| "d_add x PInf = PInf"
| "d_add NInf y = NInf"
| "d_add x NInf = NInf"

definition d_sub :: "double \<Rightarrow> double \<Rightarrow> double" where
  "d_sub x y = d_add x (d_neg y)"

fun d_mul :: "double \<Rightarrow> double \<Rightarrow> double" where
  "d_mul (Finite a) (Finite b) = fl (a * b)"
| "d_mul DNaN y = DNaN"
| "d_mul x DNaN = DNaN"
| "d_mul (Finite a) y = (if a = 0 then DNaN else if 0 < a then y else d_neg y)"
| "d_mul x (Finite b) = (if b = 0 then DNaN else if 0 < b then x else d_neg x)"
| "d_mul PInf y = y"
| "d_mul NInf y = d_neg y"

fun d_div :: "double \<Rightarrow> double \<Rightarrow> double" where
  "d_div (Finite a) (Finite b) = (if b = 0 then DNaN else fl (a / b))"
| "d_div DNaN y = DNaN"
| "d_div x DNaN = DNaN"
| "d_div (Finite a) y = Finite 0"
| "d_div x (Finite b) = (if b = 0 then DNaN else if 0 < b then x else d_neg x)"
| "d_div x y = DNaN"

fun d_lt :: "double \<Rightarrow> double \<Rightarrow> bool" where
  "d_lt (Finite a) (Finite b) = (a < b)"
| "d_lt DNaN y = False"
| "d_lt x DNaN = False"
| "d_lt x NInf = False"
| "d_lt PInf y = False"
| "d_lt x y = True"

fun d_le :: "double \<Rightarrow> double \<Rightarrow> bool" where
  "d_le (Finite a) (Finite b) = (a \<le> b)"
| "d_le DNaN y = False"
| "d_le x DNaN = False"
| "d_le NInf y = True"
| "d_le x PInf = True"
| "d_le x y = False"

definition d_gt :: "double \<Rightarrow> double \<Rightarrow> bool" where
  "d_gt x y = d_lt y x"

fun d_eq :: "double \<Rightarrow> double \<Rightarrow> bool" where
  "d_eq DNaN y = False"
| "d_eq x DNaN = False"
| "d_eq x y = (x = y)"

text \<open>
  \<^verbatim>\<open>computeAdjustedBenefit\<close>, lines 387 to 404, on doubles. The literal \<^verbatim>\<open>0.08\<close> is the
  double nearest to it; the integer literals are doubles as they are.
\<close>

definition computeAdjustedBenefitDouble :: "double \<Rightarrow> double \<Rightarrow> double" where
  "computeAdjustedBenefitDouble fullBenefit retireAge =
     (let FRA = Finite 67 in
      if d_eq retireAge FRA then fullBenefit
      else if d_gt retireAge FRA then
        (let yearsDelayed = d_sub retireAge FRA
         in d_mul fullBenefit (d_add (Finite 1) (d_mul (fl 0.08) yearsDelayed)))
      else
        (let monthsEarly = d_mul (d_sub FRA retireAge) (Finite 12);
             perMonthFirst = d_div (d_div (Finite 5) (Finite 9)) (Finite 100);
             perMonthAfter = d_div (d_div (Finite 5) (Finite 12)) (Finite 100)
         in if d_le monthsEarly (Finite 36) then
              (let reduction = d_mul monthsEarly perMonthFirst
               in d_mul fullBenefit (d_sub (Finite 1) reduction))
            else
              (let reduction = d_add (d_mul (Finite 36) perMonthFirst)
                                      (d_mul (d_sub monthsEarly (Finite 36)) perMonthAfter)
               in d_mul fullBenefit (d_sub (Finite 1) reduction))))"

section \<open>One simulated year\<close>

text \<open>
  \<^verbatim>\<open>computeYearEndWithTax\<close>, lines 351 to 374. The body of its \<^verbatim>\<open>for\<close> loop is split in
  two: the April block (lines 358 to 362) is \<open>aprilTax\<close>, and \<open>monthBody\<close> is the whole
  body, on the pair of the loop's variables \<open>balance\<close> and \<open>interestEarnedThisYear\<close>.
\<close>

record year_result =
  endBalance :: number
  interestEarned :: number

definition aprilTax :: "number \<Rightarrow> number \<Rightarrow> nat \<Rightarrow> number \<Rightarrow> number" where
  "aprilTax marginalTaxPct priorYearInterest month balance =
     (if month = 4 \<and> js_gt priorYearInterest (Fin 0) \<and> js_gt marginalTaxPct (Fin 0) then
        (let taxDue = js_mul priorYearInterest (js_div marginalTaxPct (Fin 100));
             balance = js_sub balance taxDue
         in if js_lt balance (Fin 0) then Fin 0 else balance)
      else balance)"

definition monthBody ::
  "number \<Rightarrow> number \<Rightarrow> number \<Rightarrow> number \<Rightarrow> nat \<Rightarrow> number \<times> number \<Rightarrow> number \<times> number" where
  "monthBody monthlyPayment rm marginalTaxPct priorYearInterest month s =
     (let balance = aprilTax marginalTaxPct priorYearInterest month (fst s);
          interest = js_mul balance rm;
          interestEarnedThisYear = js_add (snd s) interest;
          balance = js_add balance interest;
          balance = js_add balance monthlyPayment
      in (balance, interestEarnedThisYear))"

function yearLoop ::
  "number \<Rightarrow> number \<Rightarrow> number \<Rightarrow> number \<Rightarrow> nat \<Rightarrow> number \<times> number \<Rightarrow> year_result" where
  "yearLoop monthlyPayment rm marginalTaxPct priorYearInterest month s =
     (if month \<le> 12 then
        yearLoop monthlyPayment rm marginalTaxPct priorYearInterest (month + 1)
          (monthBody monthlyPayment rm marginalTaxPct priorYearInterest month s)
      else \<lparr>endBalance = fst s, interestEarned = snd s\<rparr>)"
  by pat_completeness auto
termination
  by (relation "measure (\<lambda>(monthlyPayment, rm, marginalTaxPct, priorYearInterest, month, s). 13 - month)") auto

declare yearLoop.simps [simp del]

definition computeYearEndWithTax ::
  "number \<Rightarrow> number \<Rightarrow> number \<Rightarrow> number \<Rightarrow> number \<Rightarrow> year_result" where
  "computeYearEndWithTax startBalance monthlyPayment annualRate marginalTaxPct priorYearInterest =
     (let rm = js_div (js_div annualRate (Fin 100)) (Fin 12)
      in yearLoop monthlyPayment rm marginalTaxPct priorYearInterest 1 (startBalance, Fin 0))"

text \<open>
  The year in the words of the specification, on finite amounts: \<open>monthStart m\<close> is the
  balance on which month \<open>m\<close> earns interest (after the April deduction, when it
  applies, clamped at zero), \<open>monthInterest m\<close> the interest of month \<open>m\<close>
  and \<open>monthEnd m\<close> the balance after month \<open>m\<close>; \<open>monthEnd 0\<close> is the starting
  balance.
\<close>

fun monthEnd :: "real \<Rightarrow> real \<Rightarrow> real \<Rightarrow> real \<Rightarrow> real \<Rightarrow> nat \<Rightarrow> real"
  and monthStart :: "real \<Rightarrow> real \<Rightarrow> real \<Rightarrow> real \<Rightarrow> real \<Rightarrow> nat \<Rightarrow> real" where
  "monthEnd startBalance monthlyPayment annualRatePct marginalTaxPct priorYearInterest 0 = startBalance"
| "monthEnd startBalance monthlyPayment annualRatePct marginalTaxPct priorYearInterest (Suc k) =
     (let balance =
            monthStart startBalance monthlyPayment annualRatePct marginalTaxPct priorYearInterest (Suc k)
      in balance + balance * (annualRatePct / 100 / 12) + monthlyPayment)"
| "monthStart startBalance monthlyPayment annualRatePct marginalTaxPct priorYearInterest 0 = startBalance"
| "monthStart startBalance monthlyPayment annualRatePct marginalTaxPct priorYearInterest (Suc k) =
     (if Suc k = 4 \<and> priorYearInterest > 0 \<and> marginalTaxPct > 0 then
        max 0 (monthEnd startBalance monthlyPayment annualRatePct marginalTaxPct priorYearInterest k
               - priorYearInterest * marginalTaxPct / 100)
      else monthEnd startBalance monthlyPayment annualRatePct marginalTaxPct priorYearInterest k)"

definition monthInterest :: "real \<Rightarrow> real \<Rightarrow> real \<Rightarrow> real \<Rightarrow> real \<Rightarrow> nat \<Rightarrow> real" where
  "monthInterest startBalance monthlyPayment annualRatePct marginalTaxPct priorYearInterest m =
     monthStart startBalance monthlyPayment annualRatePct marginalTaxPct priorYearInterest m
     * (annualRatePct / 100 / 12)"

section \<open>The schedule\<close>

text \<open>
  A \<^verbatim>\<open>Date\<close> is read only through \<^verbatim>\<open>getFullYear\<close>, \<^verbatim>\<open>getMonth\<close> (0 to 11) and
  \<^verbatim>\<open>getDate\<close>. \<open>getAgeYears\<close> is lines 211 to 221; the source's \<^verbatim>\<open>by\<close> is \<open>by'\<close> here.
\<close>

record date =
  getFullYear :: int
  getMonth :: int
  getDate :: int

definition getAgeYears :: "date \<Rightarrow> date \<Rightarrow> int" where
  "getAgeYears birth asOfDate =
     (let by' = getFullYear birth; bm = getMonth birth; bd = getDate birth;
          ay = getFullYear asOfDate; am = getMonth asOfDate; ad = getDate asOfDate;
          age = ay - by'
      in if am < bm \<or> (am = bm \<and> ad < bd) then age - 1 else age)"

text \<open>
  \<^verbatim>\<open>formatPercent\<close> (line 223) prints a percentage or a dash, \<^verbatim>\<open>formatCurrency\<close>
  (line 233) prints \<^verbatim>\<open>Number(v || 0)\<close>; the digits they print are not modelled, only the
  number printed.
\<close>

datatype percent_text = Percent real | Dash

fun formatPercent :: "number \<Rightarrow> percent_text" where
  "formatPercent (Fin p) = Percent (p * 100)"
| "formatPercent NaN = Dash"

definition formatCurrency :: "number \<Rightarrow> number" where
  "formatCurrency v = js_or v (Fin 0)"

text \<open>
  One row of the table holds what one pass of the loop of \<^verbatim>\<open>calculateSchedule\<close> (lines
  285 to 346) computes for its age. The cells appended to the table are \<open>rowCells\<close>;
  \<open>row_monthlyPayment\<close> and \<open>row_interestEarned\<close> are the locals
  \<^verbatim>\<open>monthlyPaymentThisYear\<close> and \<^verbatim>\<open>interestEarnedThisYear\<close> of that pass. The year
  cell, which depends on the birth date only, is left out.
\<close>

record row =
  row_age :: int
  row_survivalProb :: number
  row_monthlyPayment :: number
  row_endBal :: number
  row_interestEarned :: number
  row_expectedValue :: number

definition rowCells :: "row \<Rightarrow> int \<times> percent_text \<times> number \<times> number" where
  "rowCells r =
     (row_age r, formatPercent (row_survivalProb r), formatCurrency (row_endBal r),
      formatCurrency (row_expectedValue r))"

text \<open>
  The values that the loop reads and does not change: the life table
  (\<^verbatim>\<open>selectedDatasetMap\<close>, from integer ages to finite survivor counts, and
  \<^verbatim>\<open>selectedDatasetMaxAge\<close>, which may be \<^verbatim>\<open>null\<close>) and the constants computed before
  the loop.
\<close>

record sched_env =
  env_map :: "int \<rightharpoonup> real"
  env_maxAge :: "int option"
  env_userAge :: int
  env_baseNum :: real
  env_retirementAge :: number
  env_monthlyBenefitNet :: number
  env_annualRate :: number
  env_taxPct :: number

definition startAge :: int where
  "startAge = 62"

text \<open>The loop's bound \<^verbatim>\<open>age <= selectedDatasetMaxAge\<close>; \<^verbatim>\<open>null\<close> compares as 0.\<close>

definition maxAgeBound :: "sched_env \<Rightarrow> int" where
  "maxAgeBound env = (case env_maxAge env of None \<Rightarrow> 0 | Some maxAge \<Rightarrow> maxAge)"

definition survivalProbAt :: "sched_env \<Rightarrow> int \<Rightarrow> number" where
  "survivalProbAt env age =
     (if age \<le> env_userAge env then Fin 1.0
      else (case env_map env age of
              Some targetNum \<Rightarrow>
                if env_baseNum env > 0 then Fin (min 1.0 (targetNum / env_baseNum env)) else NaN
            | None \<Rightarrow> NaN))"

definition scheduleRow :: "sched_env \<Rightarrow> int \<Rightarrow> number \<Rightarrow> number \<Rightarrow> number \<Rightarrow> row" where
  "scheduleRow env age balance priorYearInterest expectedValue =
     (let survivalProb = survivalProbAt env age;
          monthlyPaymentThisYear =
            (if js_ge (Fin (of_int age)) (env_retirementAge env) then env_monthlyBenefitNet env
             else Fin 0);
          fin = computeYearEndWithTax balance monthlyPaymentThisYear (env_annualRate env)
                  (env_taxPct env) priorYearInterest;
          endBal = endBalance fin;
          interestEarnedThisYear = interestEarned fin;
          yearActivity = js_add (js_mul monthlyPaymentThisYear (Fin 12)) interestEarnedThisYear;
          expectedValue =
            (if age = startAge then js_mul endBal survivalProb
             else js_add expectedValue (js_mul yearActivity survivalProb))
      in \<lparr>row_age = age, row_survivalProb = survivalProb,
          row_monthlyPayment = monthlyPaymentThisYear, row_endBal = endBal,
          row_interestEarned = interestEarnedThisYear, row_expectedValue = expectedValue\<rparr>)"

function scheduleLoop ::
  "sched_env \<Rightarrow> int \<Rightarrow> number \<Rightarrow> number \<Rightarrow> number \<Rightarrow> row list \<Rightarrow> row list" where
  "scheduleLoop env age balance priorYearInterest expectedValue tbody =
     (if age \<le> maxAgeBound env then
        (let r = scheduleRow env age balance priorYearInterest expectedValue
         in scheduleLoop env (age + 1) (row_endBal r) (row_interestEarned r)
              (row_expectedValue r) (tbody @ [r]))
      else tbody)"
  by pat_completeness auto
termination
  by (relation "measure (\<lambda>(env, age, balance, priorYearInterest, expectedValue, tbody).
                    nat (maxAgeBound env + 1 - age))") auto

declare scheduleLoop.simps [simp del]

text \<open>
  The page: the module's variables that \<^verbatim>\<open>calculateSchedule\<close> reads and the elements
  that it writes. The form holds what \<^verbatim>\<open>Number\<close> gives for the value of each input, and
  the birth date parsed, \<open>None\<close> when it is an invalid date. The text of
  \<^verbatim>\<open>datasetInfo\<close> is either a plain text or the message
  \<^verbatim>\<open>Dataset has no data for age ${userAge}\<close>.
\<close>

datatype info_text = Text string | NoDataForAge int

datatype js_error = TypeError

record form =
  birthDate :: "date option"
  benefitAmt :: number
  globalRate :: number
  marginalTax :: number
  retirementAgeEl :: number

record page =
  selectedDatasetMap :: "(int \<rightharpoonup> real) option"
  selectedDatasetMaxAge :: "int option"
  currentDatasetName :: "string option"
  scheduleTbody :: "row list"
  datasetInfo :: info_text
  adjustedBenefitDisplay :: number
  netBenefitDisplay :: number

text \<open>
  \<^verbatim>\<open>calculateSchedule\<close>, lines 248 to 348, with today's date as an argument. It returns
  the page as it leaves it, and the exception when it throws: reading
  \<^verbatim>\<open>selectedDatasetMap.get\<close> before a dataset is loaded is a \<^verbatim>\<open>TypeError\<close>.
\<close>

definition calculateSchedule :: "form \<Rightarrow> date \<Rightarrow> page \<Rightarrow> js_error option \<times> page" where
  "calculateSchedule f today p =
     (case birthDate f of
        None \<Rightarrow> (None, p)
      | Some birth \<Rightarrow>
         (let p = p\<lparr>scheduleTbody := []\<rparr>;
              balance = Fin 0;
              priorYearInterest = Fin 0;
              expectedValue = Fin 0;
              fullRetirementBenefit = js_or (benefitAmt f) (Fin 0);
              annualRate = js_or (globalRate f) (Fin 0);
              taxPct = js_or (marginalTax f) (Fin 0);
              retirementAge = js_or (retirementAgeEl f) (Fin 67);
              adjustedMonthlyBenefit = computeAdjustedBenefit fullRetirementBenefit retirementAge;
              monthlyBenefitNet =
                js_mul adjustedMonthlyBenefit (js_sub (Fin 1) (js_div taxPct (Fin 100)));
              p = p\<lparr>adjustedBenefitDisplay := formatCurrency adjustedMonthlyBenefit,
                     netBenefitDisplay := formatCurrency monthlyBenefitNet\<rparr>;
              userAge = getAgeYears birth today
          in case selectedDatasetMap p of
               None \<Rightarrow> (Some TypeError, p)
             | Some m \<Rightarrow>
                (case m userAge of
                   None \<Rightarrow> (None, p\<lparr>datasetInfo := NoDataForAge userAge\<rparr>)
                 | Some baseNum \<Rightarrow>
                    (let p = p\<lparr>datasetInfo :=
                                 Text (case currentDatasetName p of
                                         None \<Rightarrow> ''Life table''
                                       | Some n \<Rightarrow> if n = [] then ''Life table'' else n)\<rparr>;
                         env = \<lparr>env_map = m, env_maxAge = selectedDatasetMaxAge p,
                                env_userAge = userAge, env_baseNum = baseNum,
                                env_retirementAge = retirementAge,
                                env_monthlyBenefitNet = monthlyBenefitNet,
                                env_annualRate = annualRate, env_taxPct = taxPct\<rparr>
                     in (None, p\<lparr>scheduleTbody :=
                                  scheduleLoop env startAge balance priorYearInterest
                                    expectedValue (scheduleTbody p)\<rparr>)))))"

section \<open>Notions of the specification\<close>

text \<open>
  The inputs as \<^verbatim>\<open>calculateSchedule\<close> resolves them (lines 262 to 269), and the rows
  that a call leaves in the table.
\<close>

definition fullRetirementBenefitOf :: "form \<Rightarrow> number" where
  "fullRetirementBenefitOf f = js_or (benefitAmt f) (Fin 0)"

definition annualRateOf :: "form \<Rightarrow> number" where
  "annualRateOf f = js_or (globalRate f) (Fin 0)"

definition taxPctOf :: "form \<Rightarrow> number" where
  "taxPctOf f = js_or (marginalTax f) (Fin 0)"

definition retirementAgeOf :: "form \<Rightarrow> number" where
  "retirementAgeOf f = js_or (retirementAgeEl f) (Fin 67)"

definition scheduleRows :: "form \<Rightarrow> date \<Rightarrow> page \<Rightarrow> row list" where
  "scheduleRows f today p = scheduleTbody (snd (calculateSchedule f today p))"

text \<open>
  A projection run that passes its preconditions: the birth date is valid, a life table
  is loaded with \<open>maxAge\<close> as its largest age, and it has the entry \<open>baseNum\<close> for the
  user's current age.
\<close>

definition projectionRun ::
  "form \<Rightarrow> date \<Rightarrow> page \<Rightarrow> date \<Rightarrow> (int \<rightharpoonup> real) \<Rightarrow> real \<Rightarrow> int \<Rightarrow> bool" where
  "projectionRun f today p birth m baseNum maxAge \<longleftrightarrow>
     birthDate f = Some birth \<and> selectedDatasetMap p = Some m
     \<and> m (getAgeYears birth today) = Some baseNum \<and> selectedDatasetMaxAge p = Some maxAge"

text \<open>The constants of the loop in such a run, as lines 262 to 282 compute them.\<close>

definition runEnv :: "form \<Rightarrow> date \<Rightarrow> date \<Rightarrow> (int \<rightharpoonup> real) \<Rightarrow> real \<Rightarrow> int \<Rightarrow> sched_env" where
  "runEnv f today birth m baseNum maxAge =
     \<lparr>env_map = m, env_maxAge = Some maxAge, env_userAge = getAgeYears birth today,
      env_baseNum = baseNum, env_retirementAge = retirementAgeOf f,
      env_monthlyBenefitNet =
        js_mul (computeAdjustedBenefit (fullRetirementBenefitOf f) (retirementAgeOf f))
          (js_sub (Fin 1) (js_div (taxPctOf f) (Fin 100))),
      env_annualRate = annualRateOf f, env_taxPct = taxPctOf f\<rparr>"

text \<open>
  Completed years: \<open>onOrAfter d e\<close> says that the day \<open>d\<close> is the day \<open>e\<close> or a later
  one, and \<open>anniversary birth n\<close> is the birthday \<open>n\<close> years after the birth.
\<close>

definition onOrAfter :: "date \<Rightarrow> date \<Rightarrow> bool" where
  "onOrAfter d e \<longleftrightarrow>
     getFullYear e < getFullYear d
     \<or> (getFullYear e = getFullYear d
         \<and> (getMonth e < getMonth d \<or> (getMonth e = getMonth d \<and> getDate e \<le> getDate d)))"

definition anniversary :: "date \<Rightarrow> int \<Rightarrow> date" where
  "anniversary birth n = birth\<lparr>getFullYear := getFullYear birth + n\<rparr>"

text \<open>
  The ordinary simulation of the balances, with no life table in it: for each age in
  turn, one simulated year from the balance and the interest that the year before left.
\<close>

fun simBalances ::
  "number \<Rightarrow> number \<Rightarrow> number \<Rightarrow> number \<Rightarrow> int list \<Rightarrow> number \<Rightarrow> number \<Rightarrow> number list" where
  "simBalances retirementAge netMonthlyBenefit annualRate taxPct [] balance priorYearInterest = []"
| "simBalances retirementAge netMonthlyBenefit annualRate taxPct (a # as) balance priorYearInterest =
     (let fin = computeYearEndWithTax balance
                  (if js_ge (Fin (of_int a)) retirementAge then netMonthlyBenefit else Fin 0)
                  annualRate taxPct priorYearInterest
      in endBalance fin #
         simBalances retirementAge netMonthlyBenefit annualRate taxPct as
           (endBalance fin) (interestEarned fin))"

text \<open>
  Three concrete pages on 3 November 2026 for a birth on 1 January 1970 (age 56), a
  benefit of 1000 from age 62, a rate of 12 percent and a tax of 20 percent: a life table
  with the ages 56, 62, 63 and 65, which lacks the age 64, one with the age 56 only, and
  one with the age 55 only.
\<close>

definition birth1970 :: date where
  "birth1970 = \<lparr>getFullYear = 1970, getMonth = 0, getDate = 1\<rparr>"

definition today2026 :: date where
  "today2026 = \<lparr>getFullYear = 2026, getMonth = 10, getDate = 3\<rparr>"

definition form1 :: form where
  "form1 = \<lparr>birthDate = Some birth1970, benefitAmt = Fin 1000, globalRate = Fin 12,
             marginalTax = Fin 20, retirementAgeEl = Fin 62\<rparr>"

definition table1 :: "int \<rightharpoonup> real" where
  "table1 = [56 \<mapsto> 100000, 62 \<mapsto> 90000, 63 \<mapsto> 80000, 65 \<mapsto> 60000]"

definition page1 :: page where
  "page1 = \<lparr>selectedDatasetMap = Some table1, selectedDatasetMaxAge = Some 65,
             currentDatasetName = None, scheduleTbody = [], datasetInfo = Text ''Loading...'',
             adjustedBenefitDisplay = Fin 0, netBenefitDisplay = Fin 0\<rparr>"

definition page2 :: page where
  "page2 = page1\<lparr>selectedDatasetMap := Some [56 \<mapsto> 100000], selectedDatasetMaxAge := Some 56\<rparr>"

definition page3 :: page where
  "page3 = page1\<lparr>selectedDatasetMap := Some [55 \<mapsto> 100000], selectedDatasetMaxAge := Some 55\<rparr>"

section \<open>Properties of the benefit adjustment\<close>

text \<open>
  C4: for every full benefit and every retirement age below 67 (an integer or not), the
  adjusted benefit is \<open>fullBenefit * (1 - totalReductionFraction)\<close> with
  \<open>monthsEarly = (67 - retireAge) * 12\<close>, and nothing bounds the result from below: it is
  700 for a benefit of 1000 at age 62, and negative for a benefit of 1000 at age 0.
\<close>

theorem computeAdjustedBenefit_early:
  "(r < 67 \<longrightarrow>
      computeAdjustedBenefit fullBenefit (Fin r) =
      js_mul fullBenefit (Fin (1 - totalReductionFraction ((67 - r) * 12))))
   \<and> computeAdjustedBenefit (Fin 1000) (Fin 62) = Fin 700
   \<and> computeAdjustedBenefit (Fin 1000) (Fin 0) = Fin (- 2400)"
  by (simp add: computeAdjustedBenefit_def totalReductionFraction_def Let_def min_def max_def)

theorem computeAdjustedBenefit_early_witness:
  "(64 :: real) < 67 \<and> computeAdjustedBenefit (Fin 900) (Fin 64) = Fin 720"
  using computeAdjustedBenefit_early [of 64 "Fin 900"]
  by (simp add: totalReductionFraction_def)

text \<open>
  C5: for every full benefit and every retirement age above 67, the adjusted benefit is
  \<open>fullBenefit * (1 + 0.08 * (retireAge - 67))\<close>; it is 1240 for a benefit of 1000 at
  age 70.
\<close>

theorem computeAdjustedBenefit_delayed:
  "(67 < r \<longrightarrow>
      computeAdjustedBenefit fullBenefit (Fin r) =
      js_mul fullBenefit (Fin (1 + 0.08 * (r - 67))))
   \<and> computeAdjustedBenefit (Fin 1000) (Fin 70) = Fin 1240"
  by (simp add: computeAdjustedBenefit_def Let_def)

theorem computeAdjustedBenefit_delayed_witness:
  "(69 :: real) > 67 \<and> computeAdjustedBenefit (Fin 500) (Fin 69) = Fin 580"
  using computeAdjustedBenefit_delayed [of 69 "Fin 500"]
  by simp

subsection \<open>Rounding to a double\<close>

lemma roundEven_mono: "x \<le> y \<Longrightarrow> roundEven x \<le> roundEven y"
proof -
  assume xy: "x \<le> y"
  then have fl: "\<lfloor>x\<rfloor> \<le> \<lfloor>y\<rfloor>" by (rule floor_mono)
  show ?thesis
  proof (cases "\<lfloor>x\<rfloor> = \<lfloor>y\<rfloor>")
    case True
    with xy show ?thesis by (auto simp: roundEven_def Let_def)
  next
    case False
    with fl have "\<lfloor>x\<rfloor> + 1 \<le> \<lfloor>y\<rfloor>" by simp
    moreover have "roundEven x \<le> \<lfloor>x\<rfloor> + 1" "\<lfloor>y\<rfloor> \<le> roundEven y"
      by (auto simp: roundEven_def Let_def)
    ultimately show ?thesis by linarith
  qed
qed

lemma roundEven_of_int [simp]: "roundEven (of_int n) = n"
  by (simp add: roundEven_def)

lemma expoFrom_char:
  "e \<le> expoFrom n e x \<and> expoFrom n e x \<le> e + int n
   \<and> (expoFrom n e x < e + int n \<longrightarrow> x < 2 powi (expoFrom n e x + 1))
   \<and> (e < expoFrom n e x \<longrightarrow> 2 powi (expoFrom n e x) \<le> x)"
proof (induction n arbitrary: e)
  case 0
  then show ?case by simp
next
  case (Suc n)
  show ?case
  proof (cases "x < 2 powi (e + 1)")
    case True
    then show ?thesis by simp
  next
    case False
    with Suc [of "e + 1"] show ?thesis
      by (cases "expoFrom n (e + 1) x = e + 1") (auto simp: add.commute)
  qed
qed

lemma expo_char:
  "- 1022 \<le> expo x" "expo x \<le> 1023"
  "expo x < 1023 \<Longrightarrow> \<bar>x\<bar> < 2 powi (expo x + 1)"
  "- 1022 < expo x \<Longrightarrow> 2 powi (expo x) \<le> \<bar>x\<bar>"
  using expoFrom_char [of "- 1022" 2045 "\<bar>x\<bar>"] by (simp_all add: expo_def)

lemma fl_flReal:
  "fl x = (if 2 powi 1024 \<le> flReal x then PInf
           else if flReal x \<le> - (2 powi 1024) then NInf else Finite (flReal x))"
  by (simp add: fl_def Let_def)

lemma expo_mono: "0 \<le> x \<Longrightarrow> x \<le> y \<Longrightarrow> expo x \<le> expo y"
proof (rule ccontr)
  assume x: "0 \<le> x" and xy: "x \<le> y" and "\<not> expo x \<le> expo y"
  then have less: "expo y < expo x" by simp
  with expo_char(2) [of x] have "expo y < 1023" by simp
  then have "\<bar>y\<bar> < 2 powi (expo y + 1)" by (rule expo_char(3))
  also have "\<dots> \<le> 2 powi (expo x)"
    using less by (intro power_int_increasing) simp_all
  also have "\<dots> \<le> \<bar>x\<bar>"
    using less expo_char(1) [of y] by (intro expo_char(4)) simp
  finally show False using x xy by simp
qed

lemma flReal_upper:
  assumes "0 \<le> x" "expo x < 1023"
  shows "flReal x \<le> 2 powi (expo x + 1)"
proof -
  let ?q = "2 powi (expo x - 52) :: real"
  have q: "0 < ?q" by simp
  have "x < 2 powi (expo x + 1)"
    using expo_char(3) [OF assms(2)] assms(1) by simp
  then have "x / ?q \<le> 2 powi (expo x + 1) / ?q"
    using q by (intro divide_right_mono) simp_all
  also have "2 powi (expo x + 1) / ?q = (2 :: real) powi 53"
    by (simp add: power_int_diff [symmetric])
  also have "\<dots> = of_int (2 ^ 53)"
    by simp
  finally have "roundEven (x / ?q) \<le> roundEven (of_int (2 ^ 53))"
    by (rule roundEven_mono)
  then have "roundEven (x / ?q) \<le> 2 ^ 53"
    by (simp only: roundEven_of_int)
  then have "of_int (roundEven (x / ?q)) \<le> (2 :: real) powi 53"
    by (metis (mono_tags) of_int_le_iff of_int_numeral of_int_power power_int_numeral)
  then have "?q * of_int (roundEven (x / ?q)) \<le> ?q * 2 powi 53"
    using q by (simp only: mult_le_cancel_left_pos)
  also have "?q * 2 powi 53 = 2 powi (expo x - 52 + 53)"
    by (rule power_int_add [symmetric]) simp
  also have "expo x - 52 + 53 = expo x + 1"
    by simp
  finally show ?thesis by (simp add: flReal_def)
qed

lemma flReal_lower:
  assumes "0 \<le> x" "- 1022 < expo x"
  shows "2 powi (expo x) \<le> flReal x"
proof -
  let ?q = "2 powi (expo x - 52) :: real"
  have q: "0 < ?q" by simp
  have "2 powi (expo x) \<le> x"
    using expo_char(4) [OF assms(2)] assms(1) by simp
  then have "2 powi (expo x) / ?q \<le> x / ?q"
    using q by (intro divide_right_mono) simp_all
  moreover have "2 powi (expo x) / ?q = (2 :: real) powi 52"
    by (simp add: power_int_diff [symmetric])
  moreover have "(2 :: real) powi 52 = of_int (2 ^ 52)"
    by simp
  ultimately have "roundEven (of_int (2 ^ 52)) \<le> roundEven (x / ?q)"
    by (intro roundEven_mono) simp
  then have "2 ^ 52 \<le> roundEven (x / ?q)"
    by (simp only: roundEven_of_int)
  then have r: "(2 :: real) powi 52 \<le> of_int (roundEven (x / ?q))"
    by (metis (mono_tags) of_int_le_iff of_int_numeral of_int_power power_int_numeral)
  have "expo x = expo x - 52 + 52"
    by simp
  then have "(2 :: real) powi (expo x) = 2 powi (expo x - 52 + 52)"
    by simp
  also have "\<dots> = ?q * 2 powi 52"
    by (rule power_int_add) simp
  also have "\<dots> \<le> ?q * of_int (roundEven (x / ?q))"
    using q r by (simp only: mult_le_cancel_left_pos)
  finally show ?thesis by (simp add: flReal_def)
qed

lemma flReal_nonneg: "0 \<le> x \<Longrightarrow> 0 \<le> flReal x"
proof -
  assume "0 \<le> x"
  then have "roundEven 0 \<le> roundEven (x / 2 powi (expo x - 52))"
    by (intro roundEven_mono) simp
  then have "0 \<le> roundEven (x / 2 powi (expo x - 52))"
    by (simp add: roundEven_def)
  then show ?thesis
    by (simp add: flReal_def)
qed

lemma flReal_mono:
  assumes "0 \<le> x" "x \<le> y"
  shows "flReal x \<le> flReal y"
proof (cases "expo x = expo y")
  case True
  have "roundEven (x / 2 powi (expo y - 52)) \<le> roundEven (y / 2 powi (expo y - 52))"
    using assms by (intro roundEven_mono divide_right_mono) simp_all
  then show ?thesis
    by (simp add: flReal_def True)
next
  case False
  with expo_mono [OF assms] have less: "expo x < expo y" by simp
  with expo_char(2) [of y] have "expo x < 1023" by simp
  with assms(1) have "flReal x \<le> 2 powi (expo x + 1)" by (rule flReal_upper)
  also have "\<dots> \<le> 2 powi (expo y)"
    using less by (intro power_int_increasing) simp_all
  also have "\<dots> \<le> flReal y"
    using assms less expo_char(1) [of x] by (intro flReal_lower) simp_all
  finally show ?thesis .
qed

lemma roundEven_error: "\<bar>of_int (roundEven t) - t\<bar> \<le> 1 / 2"
proof -
  have "of_int \<lfloor>t\<rfloor> \<le> t" "t < of_int \<lfloor>t\<rfloor> + 1"
    by linarith+
  then show ?thesis
    by (auto simp: roundEven_def Let_def abs_le_iff)
qed

lemma fl_relative:
  assumes "2 powi (- 1022) \<le> x" "x < 2 powi 1023"
  shows "\<exists>r. fl x = Finite r \<and> x * (1 - 1 / 2 ^ 53) \<le> r \<and> r \<le> x * (1 + 1 / 2 ^ 53)"
proof -
  have pos: "0 < x"
    using assms(1) by (rule less_le_trans [rotated]) simp
  then have abs: "\<bar>x\<bar> = x" by simp
  let ?e = "expo x"
  let ?q = "2 powi (?e - 52) :: real"
  have low: "2 powi ?e \<le> x"
  proof (cases "?e = - 1022")
    case True
    with assms(1) show ?thesis by simp
  next
    case False
    with expo_char(1) [of x] have "- 1022 < ?e" by simp
    from expo_char(4) [OF this] abs show ?thesis by simp
  qed
  have q: "0 < ?q" by simp
  have p: "(2 :: real) powi (- 52) = 1 / 2 ^ 52"
    by (simp add: power_int_minus)
  have "?q = 2 powi ?e * 2 powi (- 52)"
    using power_int_add [of "2 :: real" ?e "- 52"] by simp
  also have "\<dots> \<le> x * 2 powi (- 52)"
    using low by (intro mult_right_mono) simp_all
  finally have qx: "?q \<le> x * (1 / 2 ^ 52)"
    unfolding p .
  have "flReal x - x = ?q * (of_int (roundEven (x / ?q)) - x / ?q)"
    using q by (simp add: flReal_def right_diff_distrib)
  then have "\<bar>flReal x - x\<bar> = \<bar>?q\<bar> * \<bar>of_int (roundEven (x / ?q)) - x / ?q\<bar>"
    by (simp only: abs_mult)
  then have e1: "\<bar>flReal x - x\<bar> = ?q * \<bar>of_int (roundEven (x / ?q)) - x / ?q\<bar>"
    using q by simp
  have e2: "?q * \<bar>of_int (roundEven (x / ?q)) - x / ?q\<bar> \<le> ?q * (1 / 2)"
    using q roundEven_error [of "x / ?q"] by (intro mult_left_mono) simp_all
  have e3: "?q * (1 / 2) \<le> x * (1 / 2 ^ 52) * (1 / 2)"
    using qx by simp
  from e1 e2 e3 have "\<bar>flReal x - x\<bar> \<le> x * (1 / 2 ^ 52) * (1 / 2)"
    by linarith
  also have "x * (1 / 2 ^ 52) * (1 / 2) = x * (1 / 2 ^ 53)"
    by simp
  finally have err: "\<bar>flReal x - x\<bar> \<le> x * (1 / 2 ^ 53)" .
  have split: "x * (1 - 1 / 2 ^ 53) = x - x * (1 / 2 ^ 53)" "x * (1 + 1 / 2 ^ 53) = x + x * (1 / 2 ^ 53)"
    by (simp_all only: right_diff_distrib distrib_left mult_1_right)
  from err have bounds: "x * (1 - 1 / 2 ^ 53) \<le> flReal x" "flReal x \<le> x * (1 + 1 / 2 ^ 53)"
    unfolding split by linarith+
  have "x * (1 / 2 ^ 53) \<le> x * 1"
    using pos by (intro mult_left_mono) simp_all
  with bounds(2) have "flReal x \<le> x * 2"
    unfolding split by linarith
  also have "\<dots> < 2 powi 1023 * 2"
    using assms(2) by simp
  also have "\<dots> = 2 powi 1024"
    by simp
  finally have up: "flReal x < 2 powi 1024" .
  have "0 \<le> flReal x"
    using pos by (intro flReal_nonneg) simp
  moreover have "- (2 powi 1024) < (0 :: real)"
    by simp
  ultimately have down: "\<not> flReal x \<le> - (2 powi 1024)"
    by linarith
  from up down have "fl x = Finite (flReal x)"
    by (simp add: fl_flReal)
  with bounds show ?thesis by blast
qed

lemma expo_eq:
  assumes "- 1022 \<le> e" "e \<le> 1023" "2 powi e \<le> \<bar>x\<bar>" "\<bar>x\<bar> < 2 powi (e + 1)"
  shows "expo x = e"
proof (rule antisym)
  show "expo x \<le> e"
  proof (rule ccontr)
    assume "\<not> expo x \<le> e"
    then have less: "e + 1 \<le> expo x" by simp
    then have "(2 :: real) powi (e + 1) \<le> 2 powi (expo x)"
      by (intro power_int_increasing) simp_all
    also have "\<dots> \<le> \<bar>x\<bar>"
      using less assms(1) by (intro expo_char(4)) simp
    finally show False using assms(4) by simp
  qed
  show "e \<le> expo x"
  proof (rule ccontr)
    assume "\<not> e \<le> expo x"
    then have less: "expo x + 1 \<le> e" by simp
    with assms(2) have "expo x < 1023" by simp
    then have "\<bar>x\<bar> < 2 powi (expo x + 1)" by (rule expo_char(3))
    also have "\<dots> \<le> 2 powi e"
      using less by (intro power_int_increasing) simp_all
    finally show False using assms(3) by simp
  qed
qed

lemma expo_subnormal:
  assumes "\<bar>x\<bar> < 2 powi (- 1021)"
  shows "expo x = - 1022"
proof (rule ccontr)
  assume "expo x \<noteq> - 1022"
  with expo_char(1) [of x] have less: "- 1021 \<le> expo x" by simp
  then have "(2 :: real) powi (- 1021) \<le> 2 powi (expo x)"
    by (intro power_int_increasing) simp_all
  also have "\<dots> \<le> \<bar>x\<bar>"
    using less by (intro expo_char(4)) simp
  finally show False using assms by simp
qed

lemma fl_normal:
  assumes "- 1022 \<le> e" "e \<le> 1023" "2 powi e \<le> \<bar>x\<bar>" "\<bar>x\<bar> < 2 powi (e + 1)"
    and "r = 2 powi (e - 52) * of_int (roundEven (x / 2 powi (e - 52)))"
    and "\<bar>r\<bar> < 2 powi 1024"
  shows "fl x = Finite r"
  using assms(5,6) by (simp add: fl_def flReal_def Let_def expo_eq [OF assms(1-4)] abs_less_iff)

lemma fl_subnormal:
  assumes "\<bar>x\<bar> < 2 powi (- 1021)"
    and "r = 2 powi (- 1074) * of_int (roundEven (x / 2 powi (- 1074)))"
    and "\<bar>r\<bar> < 2 powi 1024"
  shows "fl x = Finite r"
  using assms(2,3) by (simp add: fl_def flReal_def Let_def expo_subnormal [OF assms(1)] abs_less_iff)

lemma fl_008: "fl 0.08 = Finite (5764607523034235 / 2 ^ 56)"
  by (rule fl_normal [of "- 4"]) (simp_all add: power_int_minus roundEven_def Let_def)

lemma fl_1: "fl 1 = Finite 1"
  by (rule fl_normal [of 0]) (simp_all add: power_int_minus roundEven_def Let_def)

lemma fl_3: "fl 3 = Finite 3"
  by (rule fl_normal [of 1]) (simp_all add: power_int_minus roundEven_def Let_def)

subsection \<open>The delayed retirement in doubles\<close>

lemma fl_not_NaN [simp]: "fl x \<noteq> DNaN"
  by (simp add: fl_flReal)

lemma d_le_fl: "0 \<le> x \<Longrightarrow> x \<le> y \<Longrightarrow> d_le (fl x) (fl y)"
  using flReal_mono [of x y] flReal_nonneg [of x] by (auto simp: fl_flReal)

lemma fl_0: "fl 0 = Finite 0"
  by (rule fl_subnormal) (simp_all add: power_int_minus roundEven_def Let_def)

lemma d_le_0_fl: "0 \<le> x \<Longrightarrow> d_le (Finite 0) (fl x)"
  using d_le_fl [of 0 x] by (simp add: fl_0)

lemma d_le_1_fl: "1 \<le> x \<Longrightarrow> d_le (Finite 1) (fl x)"
  using d_le_fl [of 1 x] by (simp add: fl_1)

lemma d_le_fl_PInf [simp]: "d_le (fl x) PInf"
  by (simp add: fl_flReal)

lemma d_mul_const_mono:
  assumes "0 < c" "d_le (Finite 0) u" "d_le u v"
  shows "d_le (Finite 0) (d_mul (Finite c) u)" "d_le (d_mul (Finite c) u) (d_mul (Finite c) v)"
  using assms by (cases u; cases v; simp add: d_le_0_fl d_le_fl mult_left_mono)+

lemma d_add_one_mono:
  assumes "d_le (Finite 0) u" "d_le u v"
  shows "d_le (Finite 1) (d_add (Finite 1) u)" "d_le (d_add (Finite 1) u) (d_add (Finite 1) v)"
  using assms by (cases u; cases v; simp add: d_le_1_fl d_le_fl)+

lemma d_mul_positive_mono:
  assumes "d_lt (Finite 0) B" "d_le (Finite 1) u" "d_le u v"
  shows "d_le (d_mul B u) (d_mul B v)"
  using assms by (cases B; cases u; cases v; simp add: d_le_fl mult_left_mono)

lemma computeAdjustedBenefitDouble_delayed:
  "67 < a \<Longrightarrow>
   computeAdjustedBenefitDouble B (Finite a) =
   d_mul B (d_add (Finite 1) (d_mul (fl 0.08) (fl (a - 67))))"
  by (simp add: computeAdjustedBenefitDouble_def d_gt_def d_sub_def Let_def)

lemma computeAdjustedBenefitDouble_mono:
  assumes "d_lt (Finite 0) B" "67 < age1" "age1 < age2"
  shows "d_le (computeAdjustedBenefitDouble B (Finite age1))
              (computeAdjustedBenefitDouble B (Finite age2))"
proof -
  have years: "d_le (Finite 0) (fl (age1 - 67))" "d_le (fl (age1 - 67)) (fl (age2 - 67))"
    using assms(2,3) by (simp_all add: d_le_0_fl d_le_fl)
  have c: "(0 :: real) < 5764607523034235 / 2 ^ 56" by simp
  note z = d_mul_const_mono [OF c years]
  note w = d_add_one_mono [OF z]
  from assms(2,3) have age2: "67 < age2" by simp
  show ?thesis
    unfolding computeAdjustedBenefitDouble_delayed [OF assms(2)]
      computeAdjustedBenefitDouble_delayed [OF age2] fl_008
    by (rule d_mul_positive_mono [OF assms(1) w])
qed

lemma smallest_double_at_68:
  "computeAdjustedBenefitDouble (Finite (1 / 2 ^ 1074)) (Finite 68) = Finite (1 / 2 ^ 1074)"
proof -
  define c :: real where "c = 5764607523034235 / 2 ^ 56"
  define f :: real where "f = 4863887597560136 / 2 ^ 52"
  define b :: real where "b = 1 / 2 ^ 1074"
  have lit: "fl 0.08 = Finite c"
    unfolding c_def by (rule fl_008)
  have years: "fl (68 - 67) = Finite 1"
    by (simp add: fl_1)
  have "fl (c * 1) = Finite c"
    unfolding c_def
    by (rule fl_normal [of "- 4"]) (simp_all add: power_int_minus roundEven_def Let_def)
  then have m: "d_mul (Finite c) (Finite 1) = Finite c"
    by simp
  have "fl (1 + c) = Finite f"
    unfolding c_def f_def
    by (rule fl_normal [of 0]) (simp_all add: power_int_minus roundEven_def Let_def)
  then have a: "d_add (Finite 1) (Finite c) = Finite f"
    by simp
  have "fl (b * f) = Finite b"
    unfolding b_def f_def
    by (rule fl_subnormal) (simp_all add: power_int_minus roundEven_def Let_def)
  then have r: "d_mul (Finite b) (Finite f) = Finite b"
    by simp
  have "computeAdjustedBenefitDouble (Finite b) (Finite 68) =
        d_mul (Finite b) (d_add (Finite 1) (d_mul (fl 0.08) (fl (68 - 67))))"
    by (rule computeAdjustedBenefitDouble_delayed) simp
  also have "\<dots> = Finite b"
    by (simp only: lit years m a r)
  finally show ?thesis
    unfolding b_def .
qed

lemma smallest_double_at_70:
  "computeAdjustedBenefitDouble (Finite (1 / 2 ^ 1074)) (Finite 70) = Finite (1 / 2 ^ 1074)"
proof -
  define c :: real where "c = 5764607523034235 / 2 ^ 56"
  define c3 :: real where "c3 = 8646911284551352 / 2 ^ 55"
  define f :: real where "f = 5584463537939415 / 2 ^ 52"
  define b :: real where "b = 1 / 2 ^ 1074"
  have lit: "fl 0.08 = Finite c"
    unfolding c_def by (rule fl_008)
  have years: "fl (70 - 67) = Finite 3"
    by (simp add: fl_3)
  have "fl (c * 3) = Finite c3"
    unfolding c_def c3_def
    by (rule fl_normal [of "- 3"]) (simp_all add: power_int_minus roundEven_def Let_def)
  then have m: "d_mul (Finite c) (Finite 3) = Finite c3"
    by simp
  have "fl (1 + c3) = Finite f"
    unfolding c3_def f_def
    by (rule fl_normal [of 0]) (simp_all add: power_int_minus roundEven_def Let_def)
  then have a: "d_add (Finite 1) (Finite c3) = Finite f"
    by simp
  have "fl (b * f) = Finite b"
    unfolding b_def f_def
    by (rule fl_subnormal) (simp_all add: power_int_minus roundEven_def Let_def)
  then have r: "d_mul (Finite b) (Finite f) = Finite b"
    by simp
  have "computeAdjustedBenefitDouble (Finite b) (Finite 70) =
        d_mul (Finite b) (d_add (Finite 1) (d_mul (fl 0.08) (fl (70 - 67))))"
    by (rule computeAdjustedBenefitDouble_delayed) simp
  also have "\<dots> = Finite b"
    by (simp only: lit years m a r)
  finally show ?thesis
    unfolding b_def .
qed

lemma double_range_facts:
  "(2 :: real) powi (- 1022) \<le> 1 / 100" "(10000000 :: real) \<le> 2 powi 1023"
  by (simp_all add: power_int_minus)

lemma within_normal_range:
  fixes x :: real
  assumes "1 / 100 \<le> x" "x \<le> 10000000"
  shows "2 powi (- 1022) \<le> x" "x < 2 powi 1023"
proof -
  have "(2 :: real) powi (- 1022) \<le> 1 / 100"
    by (rule double_range_facts)
  from this assms(1) show "2 powi (- 1022) \<le> x" by (rule order_trans)
  have "x < 10000000 + 1" using assms(2) by simp
  also have "\<dots> \<le> 2 powi 1023" by simp
  finally show "x < 2 powi 1023" .
qed

lemma delayed_gap:
  fixes y1 y2 :: real
  assumes "1 \<le> y1" "y1 + 1 \<le> y2" "y2 \<le> 1000000"
  shows "(1 + 5764607523034235 / 2 ^ 56 * (y1 * (1 + 1 / 2 ^ 53)) * (1 + 1 / 2 ^ 53)) * (1 + 1 / 2 ^ 53) * (1 + 1 / 2 ^ 53)
       < (1 + 5764607523034235 / 2 ^ 56 * (y2 * (1 - 1 / 2 ^ 53)) * (1 - 1 / 2 ^ 53)) * (1 - 1 / 2 ^ 53) * (1 - 1 / 2 ^ 53)"
  using assms by (simp add: algebra_simps)

lemma multiplier_bounds:
  fixes y :: real
  assumes "1 \<le> y" "y \<le> 1000000"
  shows "\<exists>F. d_add (Finite 1) (d_mul (fl 0.08) (fl y)) = Finite F
           \<and> 1 \<le> F \<and> F \<le> 1000000
           \<and> (1 + 5764607523034235 / 2 ^ 56 * (y * (1 - 1 / 2 ^ 53)) * (1 - 1 / 2 ^ 53)) * (1 - 1 / 2 ^ 53) \<le> F
           \<and> F \<le> (1 + 5764607523034235 / 2 ^ 56 * (y * (1 + 1 / 2 ^ 53)) * (1 + 1 / 2 ^ 53)) * (1 + 1 / 2 ^ 53)"
proof -
  have "1 / 100 \<le> y" "y \<le> 10000000"
    using assms by simp_all
  from fl_relative [OF within_normal_range [OF this]] obtain Y where
    Y: "fl y = Finite Y" "y * (1 - 1 / 2 ^ 53) \<le> Y" "Y \<le> y * (1 + 1 / 2 ^ 53)"
    by blast
  have Y_range: "9 / 10 \<le> Y" "Y \<le> 2000000"
    using Y(2,3) assms by (simp_all add: algebra_simps)
  let ?c = "5764607523034235 / 2 ^ 56 :: real"
  have "1 / 100 \<le> ?c * Y" "?c * Y \<le> 10000000"
    using Y_range by simp_all
  from fl_relative [OF within_normal_range [OF this]] obtain Z where
    Z: "fl (?c * Y) = Finite Z" "?c * Y * (1 - 1 / 2 ^ 53) \<le> Z" "Z \<le> ?c * Y * (1 + 1 / 2 ^ 53)"
    by blast
  have Z_range: "7 / 100 \<le> Z" "Z \<le> 200000"
    using Z(2,3) Y_range by (simp_all add: algebra_simps)
  have "1 / 100 \<le> 1 + Z" "1 + Z \<le> 10000000"
    using Z_range by simp_all
  from fl_relative [OF within_normal_range [OF this]] obtain F where
    F: "fl (1 + Z) = Finite F" "(1 + Z) * (1 - 1 / 2 ^ 53) \<le> F" "F \<le> (1 + Z) * (1 + 1 / 2 ^ 53)"
    by blast
  have F_range: "1 \<le> F" "F \<le> 1000000"
    using F(2,3) Z_range by (simp_all add: algebra_simps)
  have lower: "(1 + ?c * (y * (1 - 1 / 2 ^ 53)) * (1 - 1 / 2 ^ 53)) * (1 - 1 / 2 ^ 53) \<le> F"
    using Y(2) Z(2) F(2) by (simp add: algebra_simps)
  have upper: "F \<le> (1 + ?c * (y * (1 + 1 / 2 ^ 53)) * (1 + 1 / 2 ^ 53)) * (1 + 1 / 2 ^ 53)"
    using Y(3) Z(3) F(3) by (simp add: algebra_simps)
  have "d_add (Finite 1) (d_mul (fl 0.08) (fl y)) = Finite F"
    unfolding fl_008 Y(1) by (simp only: d_mul.simps d_add.simps Z(1) F(1))
  with F_range lower upper show ?thesis by blast
qed

lemma computeAdjustedBenefitDouble_strict:
  fixes age1 age2 :: int
  assumes "2 powi (- 1022) \<le> b" "b \<le> 2 powi 1000" "67 < age1" "age1 < age2" "age2 \<le> 1000000"
  shows "d_lt (computeAdjustedBenefitDouble (Finite b) (Finite (of_int age1)))
              (computeAdjustedBenefitDouble (Finite b) (Finite (of_int age2)))"
proof -
  define y1 :: real where "y1 = of_int age1 - 67"
  define y2 :: real where "y2 = of_int age2 - 67"
  have y: "1 \<le> y1" "y1 + 1 \<le> y2" "y2 \<le> 1000000" "y1 \<le> 1000000" "1 \<le> y2"
    using assms(3-5) by (simp_all add: y1_def y2_def)
  from multiplier_bounds [OF y(1,4)] obtain F1 where
    F1: "d_add (Finite 1) (d_mul (fl 0.08) (fl y1)) = Finite F1" "1 \<le> F1" "F1 \<le> 1000000"
      "F1 \<le> (1 + 5764607523034235 / 2 ^ 56 * (y1 * (1 + 1 / 2 ^ 53)) * (1 + 1 / 2 ^ 53)) * (1 + 1 / 2 ^ 53)"
    by blast
  from multiplier_bounds [OF y(5,3)] obtain F2 where
    F2: "d_add (Finite 1) (d_mul (fl 0.08) (fl y2)) = Finite F2" "1 \<le> F2" "F2 \<le> 1000000"
      "(1 + 5764607523034235 / 2 ^ 56 * (y2 * (1 - 1 / 2 ^ 53)) * (1 - 1 / 2 ^ 53)) * (1 - 1 / 2 ^ 53) \<le> F2"
    by blast
  have "F1 * (1 + 1 / 2 ^ 53)
      \<le> (1 + 5764607523034235 / 2 ^ 56 * (y1 * (1 + 1 / 2 ^ 53)) * (1 + 1 / 2 ^ 53)) * (1 + 1 / 2 ^ 53) * (1 + 1 / 2 ^ 53)"
    using F1(4) by (intro mult_right_mono) simp_all
  also note delayed_gap [OF y(1,2,3)]
  also have "(1 + 5764607523034235 / 2 ^ 56 * (y2 * (1 - 1 / 2 ^ 53)) * (1 - 1 / 2 ^ 53)) * (1 - 1 / 2 ^ 53) * (1 - 1 / 2 ^ 53)
      \<le> F2 * (1 - 1 / 2 ^ 53)"
    using F2(4) by (intro mult_right_mono) simp_all
  finally have F: "F1 * (1 + 1 / 2 ^ 53) < F2 * (1 - 1 / 2 ^ 53)" .
  have b: "0 < b"
    using assms(1) by (rule less_le_trans [rotated]) simp
  have range: "2 powi (- 1022) \<le> b * F" "b * F < 2 powi 1023" if "1 \<le> F" "F \<le> 1000000" for F
  proof -
    have "b * 1 \<le> b * F"
      using b that(1) by (intro mult_left_mono) simp_all
    then have "b \<le> b * F"
      by (simp only: mult_1_right)
    with assms(1) show "2 powi (- 1022) \<le> b * F"
      by (rule order_trans)
    have "b * F \<le> 2 powi 1000 * 1000000"
      using assms(2) that b by (intro mult_mono) simp_all
    also have "\<dots> < 2 powi 1023" by simp
    finally show "b * F < 2 powi 1023" .
  qed
  from fl_relative [OF range [OF F1(2,3)]] obtain R1 where
    R1: "fl (b * F1) = Finite R1" "R1 \<le> b * F1 * (1 + 1 / 2 ^ 53)"
    by blast
  from fl_relative [OF range [OF F2(2,3)]] obtain R2 where
    R2: "fl (b * F2) = Finite R2" "b * F2 * (1 - 1 / 2 ^ 53) \<le> R2"
    by blast
  have "R1 \<le> b * (F1 * (1 + 1 / 2 ^ 53))"
    using R1(2) by (simp only: mult.assoc)
  also have "\<dots> < b * (F2 * (1 - 1 / 2 ^ 53))"
    using F b by (rule mult_strict_left_mono)
  also have "\<dots> \<le> R2"
    using R2(2) by (simp only: mult.assoc)
  finally have "R1 < R2" .
  have ages: "67 < (of_int age1 :: real)" "67 < (of_int age2 :: real)"
    using assms(3,4) by simp_all
  show ?thesis
    unfolding computeAdjustedBenefitDouble_delayed [OF ages(1)]
      computeAdjustedBenefitDouble_delayed [OF ages(2)]
      y1_def [symmetric] y2_def [symmetric] F1(1) F2(1)
    using \<open>R1 < R2\<close> by (simp add: R1(1) R2(1))
qed

text \<open>
  The strict inequality fails on doubles: for the smallest positive double,
  \<open>1 / 2 ^ 1074\<close> (5e-324), the benefits at the ages 68 and 70 are both rounded back to
  this very double.
\<close>

theorem strict_monotone_counterexample:
  "(0 :: real) < 1 / 2 ^ 1074 \<and> (67 :: real) < 68 \<and> (68 :: real) < 70
   \<and> fl (1 / 2 ^ 1074) = Finite (1 / 2 ^ 1074)
   \<and> computeAdjustedBenefitDouble (Finite (1 / 2 ^ 1074)) (Finite 68) = Finite (1 / 2 ^ 1074)
   \<and> computeAdjustedBenefitDouble (Finite (1 / 2 ^ 1074)) (Finite 70) = Finite (1 / 2 ^ 1074)
   \<and> \<not> d_lt (computeAdjustedBenefitDouble (Finite (1 / 2 ^ 1074)) (Finite 68))
            (computeAdjustedBenefitDouble (Finite (1 / 2 ^ 1074)) (Finite 70))"
proof (intro conjI)
  show "fl (1 / 2 ^ 1074) = Finite (1 / 2 ^ 1074)"
    by (rule fl_subnormal) (simp_all add: power_int_minus roundEven_def Let_def)
  show "computeAdjustedBenefitDouble (Finite (1 / 2 ^ 1074)) (Finite 68) = Finite (1 / 2 ^ 1074)"
    by (rule smallest_double_at_68)
  show "computeAdjustedBenefitDouble (Finite (1 / 2 ^ 1074)) (Finite 70) = Finite (1 / 2 ^ 1074)"
    by (rule smallest_double_at_70)
  show "\<not> d_lt (computeAdjustedBenefitDouble (Finite (1 / 2 ^ 1074)) (Finite 68))
            (computeAdjustedBenefitDouble (Finite (1 / 2 ^ 1074)) (Finite 70))"
    unfolding smallest_double_at_68 smallest_double_at_70 by simp
qed simp_all

text \<open>
  C6, amended: at age 67 the benefit is returned as it is, whatever it is; for a positive
  benefit (an infinite one too) and two ages above 67, the later age gives a benefit that
  is not smaller; and it gives the strictly larger benefit when the benefit lies between
  \<open>2 powi (- 1022)\<close>, the smallest normal double, and \<open>2 powi 1000\<close>, and the ages
  are integers up to 1000000.
\<close>

theorem computeAdjustedBenefitDouble_fra_and_monotone:
  "computeAdjustedBenefitDouble B (Finite 67) = B
   \<and> (d_lt (Finite 0) B' \<and> 67 < a1 \<and> a1 < a2 \<longrightarrow>
        d_le (computeAdjustedBenefitDouble B' (Finite a1))
             (computeAdjustedBenefitDouble B' (Finite a2)))
   \<and> (2 powi (- 1022) \<le> b \<and> b \<le> 2 powi 1000
        \<and> 67 < age1 \<and> age1 < age2 \<and> age2 \<le> (1000000 :: int) \<longrightarrow>
        d_lt (computeAdjustedBenefitDouble (Finite b) (Finite (of_int age1)))
             (computeAdjustedBenefitDouble (Finite b) (Finite (of_int age2))))"
proof (intro conjI impI)
  show "computeAdjustedBenefitDouble B (Finite 67) = B"
    by (simp add: computeAdjustedBenefitDouble_def)
next
  assume "d_lt (Finite 0) B' \<and> 67 < a1 \<and> a1 < a2"
  then show "d_le (computeAdjustedBenefitDouble B' (Finite a1))
                  (computeAdjustedBenefitDouble B' (Finite a2))"
    by (intro computeAdjustedBenefitDouble_mono) simp_all
next
  assume "2 powi (- 1022) \<le> b \<and> b \<le> 2 powi 1000
      \<and> 67 < age1 \<and> age1 < age2 \<and> age2 \<le> (1000000 :: int)"
  then show "d_lt (computeAdjustedBenefitDouble (Finite b) (Finite (of_int age1)))
                  (computeAdjustedBenefitDouble (Finite b) (Finite (of_int age2)))"
    by (intro computeAdjustedBenefitDouble_strict) simp_all
qed

theorem computeAdjustedBenefitDouble_fra_and_monotone_witness:
  "d_lt (Finite 0) PInf \<and> (67 :: real) < 68 \<and> (68 :: real) < 70
   \<and> 2 powi (- 1022) \<le> (1000 :: real) \<and> (1000 :: real) \<le> 2 powi 1000
   \<and> (67 :: int) < 68 \<and> (68 :: int) < 70 \<and> (70 :: int) \<le> 1000000
   \<and> computeAdjustedBenefitDouble DNaN (Finite 67) = DNaN
   \<and> d_le (computeAdjustedBenefitDouble PInf (Finite 68))
           (computeAdjustedBenefitDouble PInf (Finite 70))
   \<and> d_lt (computeAdjustedBenefitDouble (Finite 1000) (Finite 68))
           (computeAdjustedBenefitDouble (Finite 1000) (Finite 70))"
proof -
  have range: "2 powi (- 1022) \<le> (1000 :: real)" "(1000 :: real) \<le> 2 powi 1000"
    by (simp_all add: power_int_minus)
  note inst = computeAdjustedBenefitDouble_fra_and_monotone [of DNaN PInf 68 70 1000 68 70]
  have "computeAdjustedBenefitDouble DNaN (Finite 67) = DNaN"
    using inst by (rule conjunct1)
  moreover have "d_le (computeAdjustedBenefitDouble PInf (Finite 68))
      (computeAdjustedBenefitDouble PInf (Finite 70))"
    using inst by simp
  moreover have "d_lt (computeAdjustedBenefitDouble (Finite 1000) (Finite 68))
      (computeAdjustedBenefitDouble (Finite 1000) (Finite 70))"
    using inst range by simp
  ultimately show ?thesis
    using range by simp
qed

section \<open>Properties of the simulated year\<close>

lemma yearLoop_step:
  "month \<le> 12 \<Longrightarrow>
   yearLoop mp rm tax pyi month s = yearLoop mp rm tax pyi (Suc month) (monthBody mp rm tax pyi month s)"
  by (subst yearLoop.simps) simp

lemma yearLoop_stop:
  "12 < month \<Longrightarrow> yearLoop mp rm tax pyi month s = \<lparr>endBalance = fst s, interestEarned = snd s\<rparr>"
  by (subst yearLoop.simps) simp

text \<open>The twelve passes of the loop, written out.\<close>

lemma computeYearEndWithTax_unrolled:
  "computeYearEndWithTax sb mp ar tax pyi =
   (let rm = js_div (js_div ar (Fin 100)) (Fin 12);
        s = monthBody mp rm tax pyi 1 (sb, Fin 0); s = monthBody mp rm tax pyi 2 s;
        s = monthBody mp rm tax pyi 3 s; s = monthBody mp rm tax pyi 4 s;
        s = monthBody mp rm tax pyi 5 s; s = monthBody mp rm tax pyi 6 s;
        s = monthBody mp rm tax pyi 7 s; s = monthBody mp rm tax pyi 8 s;
        s = monthBody mp rm tax pyi 9 s; s = monthBody mp rm tax pyi 10 s;
        s = monthBody mp rm tax pyi 11 s; s = monthBody mp rm tax pyi 12 s
    in \<lparr>endBalance = fst s, interestEarned = snd s\<rparr>)"
  by (simp add: computeYearEndWithTax_def yearLoop_step yearLoop_stop Let_def eval_nat_numeral)

lemma computeYearEndWithTax_foldl:
  "computeYearEndWithTax sb mp ar tax pyi =
   (let rm = js_div (js_div ar (Fin 100)) (Fin 12);
        s = foldl (\<lambda>s month. monthBody mp rm tax pyi month s) (sb, Fin 0) [1..<13]
    in \<lparr>endBalance = fst s, interestEarned = snd s\<rparr>)"
  by (simp add: computeYearEndWithTax_def yearLoop_step yearLoop_stop Let_def eval_nat_numeral
      upt_rec)

lemma monthBody_Fin:
  "rm = ar / 100 / 12 \<Longrightarrow>
   monthBody (Fin mp) (Fin rm) (Fin tax) (Fin pyi) (Suc k) (Fin (monthEnd sb mp ar tax pyi k), Fin i) =
   (Fin (monthEnd sb mp ar tax pyi (Suc k)), Fin (i + monthInterest sb mp ar tax pyi (Suc k)))"
  by (simp add: monthBody_def aprilTax_def monthInterest_def Let_def max_def)

lemma yearLoop_Fin:
  "k \<le> 12 \<Longrightarrow> rm = ar / 100 / 12 \<Longrightarrow>
   yearLoop (Fin mp) (Fin rm) (Fin tax) (Fin pyi) (Suc k)
      (Fin (monthEnd sb mp ar tax pyi k), Fin (\<Sum>m = 1..k. monthInterest sb mp ar tax pyi m)) =
   \<lparr>endBalance = Fin (monthEnd sb mp ar tax pyi 12),
    interestEarned = Fin (\<Sum>m = 1..12. monthInterest sb mp ar tax pyi m)\<rparr>"
proof (induction "12 - k" arbitrary: k)
  case 0
  then have "k = 12" by simp
  then show ?case by (simp add: yearLoop_stop)
next
  case (Suc d)
  then have k: "Suc k \<le> 12" and d: "d = 12 - Suc k" by simp_all
  let ?s = "(Fin (monthEnd sb mp ar tax pyi k), Fin (\<Sum>m = 1..k. monthInterest sb mp ar tax pyi m))"
  have sum: "(\<Sum>m = 1..k. monthInterest sb mp ar tax pyi m) + monthInterest sb mp ar tax pyi (Suc k)
     = (\<Sum>m = 1..Suc k. monthInterest sb mp ar tax pyi m)"
    by simp
  have "yearLoop (Fin mp) (Fin rm) (Fin tax) (Fin pyi) (Suc k) ?s =
        yearLoop (Fin mp) (Fin rm) (Fin tax) (Fin pyi) (Suc (Suc k))
          (monthBody (Fin mp) (Fin rm) (Fin tax) (Fin pyi) (Suc k) ?s)"
    using k by (rule yearLoop_step)
  also have "\<dots> = yearLoop (Fin mp) (Fin rm) (Fin tax) (Fin pyi) (Suc (Suc k))
      (Fin (monthEnd sb mp ar tax pyi (Suc k)), Fin (\<Sum>m = 1..Suc k. monthInterest sb mp ar tax pyi m))"
    by (simp only: monthBody_Fin [OF Suc.prems(2)] sum)
  also have "\<dots> = \<lparr>endBalance = Fin (monthEnd sb mp ar tax pyi 12),
    interestEarned = Fin (\<Sum>m = 1..12. monthInterest sb mp ar tax pyi m)\<rparr>"
    using k by (intro Suc.hyps(1) [OF d _ Suc.prems(2)])
  finally show ?case .
qed

lemma computeYearEndWithTax_Fin:
  "computeYearEndWithTax (Fin sb) (Fin mp) (Fin ar) (Fin tax) (Fin pyi) =
   \<lparr>endBalance = Fin (monthEnd sb mp ar tax pyi 12),
    interestEarned = Fin (\<Sum>m = 1..12. monthInterest sb mp ar tax pyi m)\<rparr>"
  using yearLoop_Fin [of 0 "ar / 100 / 12" ar mp tax pyi sb]
  by (simp add: computeYearEndWithTax_def)

text \<open>
  C2: the loop runs its body for the months 1 to 12 in this order. On finite amounts
  the result is the balance after month 12 and the sum of the twelve monthly interests
  of the specification's year, where only month 4 deducts
  \<open>priorYearInterest * marginalTaxPct / 100\<close> (when both are positive, and followed by
  the clamp at zero) before the interest of the month, each month adds its interest
  \<open>balance * (annualRatePct / 100 / 12)\<close> and then the payment, and the deduction is no
  part of the interest earned. A year from 1000 with no payment, no rate and no tax
  ends at 1000 with no interest.
\<close>

theorem computeYearEndWithTax_twelve_months:
  "computeYearEndWithTax startBalance monthlyPayment annualRate marginalTaxPct priorYearInterest =
     (let rm = js_div (js_div annualRate (Fin 100)) (Fin 12);
          s = foldl (\<lambda>s month. monthBody monthlyPayment rm marginalTaxPct priorYearInterest month s)
                (startBalance, Fin 0) [1..<13]
      in \<lparr>endBalance = fst s, interestEarned = snd s\<rparr>)
   \<and> computeYearEndWithTax (Fin sb) (Fin mp) (Fin ar) (Fin tax) (Fin pyi) =
       \<lparr>endBalance = Fin (monthEnd sb mp ar tax pyi 12),
        interestEarned = Fin (\<Sum>m = 1..12. monthInterest sb mp ar tax pyi m)\<rparr>
   \<and> computeYearEndWithTax (Fin 1000) (Fin 0) (Fin 0) (Fin 0) (Fin 0) =
       \<lparr>endBalance = Fin 1000, interestEarned = Fin 0\<rparr>"
proof (intro conjI)
  show "computeYearEndWithTax (Fin 1000) (Fin 0) (Fin 0) (Fin 0) (Fin 0) =
       \<lparr>endBalance = Fin 1000, interestEarned = Fin 0\<rparr>"
    by (simp add: computeYearEndWithTax_unrolled monthBody_def aprilTax_def Let_def)
qed (rule computeYearEndWithTax_foldl, rule computeYearEndWithTax_Fin)

theorem computeYearEndWithTax_twelve_months_witness:
  "computeYearEndWithTax (Fin 100) (Fin 10) (Fin 12) (Fin 50) (Fin 40) =
     \<lparr>endBalance = Fin (monthEnd 100 10 12 50 40 12),
      interestEarned = Fin (\<Sum>m = 1..12. monthInterest 100 10 12 50 40 m)\<rparr>
   \<and> monthEnd 100 10 12 50 40 3 = 133.3311
   \<and> monthStart 100 10 12 50 40 4 = 113.3311"
proof (intro conjI)
  show "computeYearEndWithTax (Fin 100) (Fin 10) (Fin 12) (Fin 50) (Fin 40) =
     \<lparr>endBalance = Fin (monthEnd 100 10 12 50 40 12),
      interestEarned = Fin (\<Sum>m = 1..12. monthInterest 100 10 12 50 40 m)\<rparr>"
    by (rule conjunct1 [OF conjunct2 [OF computeYearEndWithTax_twelve_months]])
  show "monthEnd 100 10 12 50 40 3 = 133.3311"
    by (simp add: eval_nat_numeral Let_def)
  show "monthStart 100 10 12 50 40 4 = 113.3311"
    by (simp add: eval_nat_numeral Let_def)
qed

lemma aprilTax_not_negative:
  "month = 4 \<and> js_gt pyi (Fin 0) \<and> js_gt tax (Fin 0) \<or> \<not> js_lt balance (Fin 0) \<Longrightarrow>
   \<not> js_lt (aprilTax tax pyi month balance) (Fin 0)"
  by (cases balance; cases pyi; cases tax) (auto simp: aprilTax_def Let_def)

text \<open>
  C3: when the April deduction applies, the balance after it is not negative, whatever
  the balance before it; a balance that is not negative is never made negative by the
  April block; on finite amounts the block leaves \<open>max 0 (balance - priorYearInterest *
  marginalTaxPct / 100)\<close>, which is zero when the tax exceeds the balance; and the year
  is the months 1 to 3, then the interest and the payment of April on the clamped
  balance, then the loop from month 5. From 100 with a payment of 10, no rate and a tax
  of 500 due in April, the year ends at 90: zero after the deduction, and nine payments.
\<close>

theorem april_deduction_clamped:
  "(js_gt priorYearInterest (Fin 0) \<and> js_gt marginalTaxPct (Fin 0) \<longrightarrow>
      \<not> js_lt (aprilTax marginalTaxPct priorYearInterest 4 balance) (Fin 0))
   \<and> (\<not> js_lt balance (Fin 0) \<longrightarrow>
      \<not> js_lt (aprilTax marginalTaxPct priorYearInterest month balance) (Fin 0))
   \<and> (0 < pyi \<and> 0 < tax \<longrightarrow>
      aprilTax (Fin tax) (Fin pyi) 4 (Fin b) = Fin (max 0 (b - pyi * tax / 100)))
   \<and> computeYearEndWithTax startBalance monthlyPayment annualRate marginalTaxPct priorYearInterest =
       (let rm = js_div (js_div annualRate (Fin 100)) (Fin 12);
            s = foldl (\<lambda>s month. monthBody monthlyPayment rm marginalTaxPct priorYearInterest month s)
                  (startBalance, Fin 0) [1..<4];
            clamped = aprilTax marginalTaxPct priorYearInterest 4 (fst s);
            interest = js_mul clamped rm
        in yearLoop monthlyPayment rm marginalTaxPct priorYearInterest 5
             (js_add (js_add clamped interest) monthlyPayment, js_add (snd s) interest))
   \<and> computeYearEndWithTax (Fin 100) (Fin 10) (Fin 0) (Fin 50) (Fin 1000) =
       \<lparr>endBalance = Fin 90, interestEarned = Fin 0\<rparr>"
proof (intro conjI impI)
  assume "js_gt priorYearInterest (Fin 0) \<and> js_gt marginalTaxPct (Fin 0)"
  then show "\<not> js_lt (aprilTax marginalTaxPct priorYearInterest 4 balance) (Fin 0)"
    by (intro aprilTax_not_negative) simp
next
  assume "\<not> js_lt balance (Fin 0)"
  then show "\<not> js_lt (aprilTax marginalTaxPct priorYearInterest month balance) (Fin 0)"
    by (intro aprilTax_not_negative) simp
next
  assume "0 < pyi \<and> 0 < tax"
  then show "aprilTax (Fin tax) (Fin pyi) 4 (Fin b) = Fin (max 0 (b - pyi * tax / 100))"
    by (simp add: aprilTax_def Let_def max_def)
next
  show "computeYearEndWithTax startBalance monthlyPayment annualRate marginalTaxPct priorYearInterest =
       (let rm = js_div (js_div annualRate (Fin 100)) (Fin 12);
            s = foldl (\<lambda>s month. monthBody monthlyPayment rm marginalTaxPct priorYearInterest month s)
                  (startBalance, Fin 0) [1..<4];
            clamped = aprilTax marginalTaxPct priorYearInterest 4 (fst s);
            interest = js_mul clamped rm
        in yearLoop monthlyPayment rm marginalTaxPct priorYearInterest 5
             (js_add (js_add clamped interest) monthlyPayment, js_add (snd s) interest))"
    by (simp add: computeYearEndWithTax_def yearLoop_step Let_def eval_nat_numeral upt_rec
        monthBody_def [of _ _ _ _ "Suc (Suc (Suc (Suc 0)))"])
next
  show "computeYearEndWithTax (Fin 100) (Fin 10) (Fin 0) (Fin 50) (Fin 1000) =
       \<lparr>endBalance = Fin 90, interestEarned = Fin 0\<rparr>"
    by (simp add: computeYearEndWithTax_unrolled monthBody_def aprilTax_def Let_def)
qed

theorem april_deduction_clamped_witness:
  "js_gt (Fin 1000) (Fin 0) \<and> js_gt (Fin 50) (Fin 0) \<and> \<not> js_lt (Fin 130) (Fin 0)
   \<and> (0 :: real) < 1000 \<and> (0 :: real) < 50
   \<and> aprilTax (Fin 50) (Fin 1000) 4 (Fin 130) = Fin 0"
  using april_deduction_clamped [of "Fin 1000" "Fin 50" "Fin 130" 4 1000 50 130]
  by simp

section \<open>Properties of the schedule\<close>

lemma getAgeYears_completed:
  "getAgeYears birth today = a \<longleftrightarrow>
   onOrAfter today (anniversary birth a) \<and> \<not> onOrAfter today (anniversary birth (a + 1))"
  by (auto simp: getAgeYears_def onOrAfter_def anniversary_def Let_def)

text \<open>
  C8: when the birth date is valid and the loaded life table has no entry for the user's
  current age, \<^verbatim>\<open>calculateSchedule\<close> returns with an empty table and the message that
  carries this very age. The age is the difference of the years, less one when today's
  month and day precede the birth's; it is the number of birthdays reached by today.
\<close>

theorem no_data_for_age:
  "(birthDate f = Some birth \<and> selectedDatasetMap p = Some m \<and> m (getAgeYears birth today) = None \<longrightarrow>
      fst (calculateSchedule f today p) = None
      \<and> scheduleRows f today p = []
      \<and> datasetInfo (snd (calculateSchedule f today p)) = NoDataForAge (getAgeYears birth today))
   \<and> getAgeYears birth today =
       getFullYear today - getFullYear birth
       - (if getMonth today < getMonth birth
             \<or> (getMonth today = getMonth birth \<and> getDate today < getDate birth) then 1 else 0)
   \<and> (getAgeYears birth today = a \<longleftrightarrow>
       onOrAfter today (anniversary birth a) \<and> \<not> onOrAfter today (anniversary birth (a + 1)))"
proof (intro conjI impI)
  assume "birthDate f = Some birth \<and> selectedDatasetMap p = Some m \<and> m (getAgeYears birth today) = None"
  then show "fst (calculateSchedule f today p) = None"
    and "scheduleRows f today p = []"
    and "datasetInfo (snd (calculateSchedule f today p)) = NoDataForAge (getAgeYears birth today)"
    by (simp_all add: calculateSchedule_def scheduleRows_def Let_def)
next
  show "getAgeYears birth today =
       getFullYear today - getFullYear birth
       - (if getMonth today < getMonth birth
             \<or> (getMonth today = getMonth birth \<and> getDate today < getDate birth) then 1 else 0)"
    by (simp add: getAgeYears_def Let_def)
next
  show "getAgeYears birth today = a \<longleftrightarrow>
       onOrAfter today (anniversary birth a) \<and> \<not> onOrAfter today (anniversary birth (a + 1))"
    by (rule getAgeYears_completed)
qed

theorem no_data_for_age_witness:
  "birthDate form1 = Some birth1970 \<and> selectedDatasetMap page3 = Some [55 \<mapsto> 100000]
   \<and> [55 \<mapsto> (100000 :: real)] (getAgeYears birth1970 today2026) = None
   \<and> getAgeYears birth1970 today2026 = 56
   \<and> scheduleRows form1 today2026 page3 = []
   \<and> datasetInfo (snd (calculateSchedule form1 today2026 page3)) = NoDataForAge 56"
proof -
  have age: "getAgeYears birth1970 today2026 = 56"
    by (simp add: getAgeYears_def birth1970_def today2026_def)
  have hyp: "birthDate form1 = Some birth1970 \<and> selectedDatasetMap page3 = Some [55 \<mapsto> 100000]
      \<and> [55 \<mapsto> (100000 :: real)] (getAgeYears birth1970 today2026) = None"
    by (simp add: age form1_def page3_def page1_def)
  have "fst (calculateSchedule form1 today2026 page3) = None
      \<and> scheduleRows form1 today2026 page3 = []
      \<and> datasetInfo (snd (calculateSchedule form1 today2026 page3)) =
          NoDataForAge (getAgeYears birth1970 today2026)"
    by (rule mp [OF conjunct1 [OF no_data_for_age] hyp])
  with hyp age show ?thesis by simp
qed

lemma scheduleLoop_step:
  "age \<le> maxAgeBound env \<Longrightarrow>
   scheduleLoop env age b pyi ev tbody =
   scheduleLoop env (age + 1) (row_endBal (scheduleRow env age b pyi ev))
     (row_interestEarned (scheduleRow env age b pyi ev))
     (row_expectedValue (scheduleRow env age b pyi ev)) (tbody @ [scheduleRow env age b pyi ev])"
  by (subst scheduleLoop.simps) (simp add: Let_def)

lemma scheduleLoop_stop:
  "\<not> age \<le> maxAgeBound env \<Longrightarrow> scheduleLoop env age b pyi ev tbody = tbody"
  by (subst scheduleLoop.simps) simp

lemma scheduleLoop_append:
  "scheduleLoop env age b pyi ev tbody = tbody @ scheduleLoop env age b pyi ev []"
proof (induction "nat (maxAgeBound env + 1 - age)" arbitrary: age b pyi ev tbody)
  case 0
  then have "\<not> age \<le> maxAgeBound env" by simp
  then show ?case by (simp add: scheduleLoop_stop)
next
  case (Suc n)
  then have le: "age \<le> maxAgeBound env" and n: "n = nat (maxAgeBound env + 1 - (age + 1))"
    by simp_all
  let ?r = "scheduleRow env age b pyi ev"
  have "scheduleLoop env age b pyi ev tbody =
        (tbody @ [?r]) @ scheduleLoop env (age + 1) (row_endBal ?r) (row_interestEarned ?r)
          (row_expectedValue ?r) []"
    unfolding scheduleLoop_step [OF le, of b pyi ev tbody] by (rule Suc.hyps(1) [OF n])
  moreover have "scheduleLoop env age b pyi ev [] =
        [?r] @ scheduleLoop env (age + 1) (row_endBal ?r) (row_interestEarned ?r)
          (row_expectedValue ?r) []"
    unfolding scheduleLoop_step [OF le, of b pyi ev "[]"] append_Nil by (rule Suc.hyps(1) [OF n])
  ultimately show ?case by simp
qed

lemma scheduleLoop_Cons:
  "age \<le> maxAgeBound env \<Longrightarrow>
   scheduleLoop env age b pyi ev [] =
   scheduleRow env age b pyi ev #
   scheduleLoop env (age + 1) (row_endBal (scheduleRow env age b pyi ev))
     (row_interestEarned (scheduleRow env age b pyi ev))
     (row_expectedValue (scheduleRow env age b pyi ev)) []"
  by (subst scheduleLoop_step, assumption, subst scheduleLoop_append) simp

lemma row_age_scheduleRow [simp]: "row_age (scheduleRow env age b pyi ev) = age"
  by (simp add: scheduleRow_def Let_def)

lemma scheduleLoop_ages:
  "map row_age (scheduleLoop env age b pyi ev []) = [age..maxAgeBound env]"
proof (induction "nat (maxAgeBound env + 1 - age)" arbitrary: age b pyi ev)
  case 0
  then have "\<not> age \<le> maxAgeBound env" by simp
  then show ?case by (simp add: scheduleLoop_stop)
next
  case (Suc n)
  then have le: "age \<le> maxAgeBound env" and n: "n = nat (maxAgeBound env + 1 - (age + 1))"
    by simp_all
  show ?case
    by (simp add: scheduleLoop_Cons [OF le] Suc.hyps(1) [OF n] upto_rec1 [OF le])
qed

lemma scheduleLoop_nth_Suc:
  "Suc i < length (scheduleLoop env age b pyi ev []) \<Longrightarrow>
   scheduleLoop env age b pyi ev [] ! Suc i =
   scheduleRow env (row_age (scheduleLoop env age b pyi ev [] ! i) + 1)
     (row_endBal (scheduleLoop env age b pyi ev [] ! i))
     (row_interestEarned (scheduleLoop env age b pyi ev [] ! i))
     (row_expectedValue (scheduleLoop env age b pyi ev [] ! i))"
proof (induction "nat (maxAgeBound env + 1 - age)" arbitrary: age b pyi ev i)
  case 0
  then have "\<not> age \<le> maxAgeBound env" by simp
  with "0.prems" show ?case by (simp add: scheduleLoop_stop)
next
  case (Suc n)
  then have le: "age \<le> maxAgeBound env" and n: "n = nat (maxAgeBound env + 1 - (age + 1))"
    by simp_all
  let ?r = "scheduleRow env age b pyi ev"
  let ?rest = "scheduleLoop env (age + 1) (row_endBal ?r) (row_interestEarned ?r) (row_expectedValue ?r) []"
  have rows: "scheduleLoop env age b pyi ev [] = ?r # ?rest"
    by (rule scheduleLoop_Cons [OF le])
  show ?case
  proof (cases i)
    case 0
    have "age + 1 \<le> maxAgeBound env"
    proof (rule ccontr)
      assume "\<not> age + 1 \<le> maxAgeBound env"
      then have "?rest = []" by (simp add: scheduleLoop_stop)
      with Suc.prems rows 0 show False by simp
    qed
    then show ?thesis using 0 rows by (simp add: scheduleLoop_Cons)
  next
    case (Suc j)
    from Suc.prems rows Suc have "Suc j < length ?rest" by simp
    from Suc.hyps(1) [OF n this] show ?thesis using rows Suc by simp
  qed
qed

lemma scheduleRows_run:
  assumes "projectionRun f today p birth m baseNum maxAge"
  shows "scheduleRows f today p =
         scheduleLoop (runEnv f today birth m baseNum maxAge) startAge (Fin 0) (Fin 0) (Fin 0) []"
    and "fst (calculateSchedule f today p) = None"
  using assms
  by (simp_all add: projectionRun_def scheduleRows_def calculateSchedule_def runEnv_def Let_def
      fullRetirementBenefitOf_def annualRateOf_def taxPctOf_def retirementAgeOf_def)

lemma maxAgeBound_runEnv [simp]: "maxAgeBound (runEnv f today birth m baseNum maxAge) = maxAge"
  by (simp add: maxAgeBound_def runEnv_def)

lemma scheduleLoop_nth_0:
  "scheduleLoop env age b pyi ev [] \<noteq> [] \<Longrightarrow>
   hd (scheduleLoop env age b pyi ev []) = scheduleRow env age b pyi ev"
  by (cases "age \<le> maxAgeBound env") (simp_all add: scheduleLoop_Cons scheduleLoop_stop)

lemma scheduleLoop_member:
  "r \<in> set (scheduleLoop env age b pyi ev []) \<Longrightarrow>
   \<exists>b' pyi' ev'. r = scheduleRow env (row_age r) b' pyi' ev'"
proof (induction "nat (maxAgeBound env + 1 - age)" arbitrary: age b pyi ev)
  case 0
  then have "\<not> age \<le> maxAgeBound env" by simp
  with "0.prems" show ?case by (simp add: scheduleLoop_stop)
next
  case (Suc n)
  then have le: "age \<le> maxAgeBound env" and n: "n = nat (maxAgeBound env + 1 - (age + 1))"
    by simp_all
  from Suc.prems consider "r = scheduleRow env age b pyi ev"
    | "r \<in> set (scheduleLoop env (age + 1) (row_endBal (scheduleRow env age b pyi ev))
        (row_interestEarned (scheduleRow env age b pyi ev))
        (row_expectedValue (scheduleRow env age b pyi ev)) [])"
    by (auto simp: scheduleLoop_Cons [OF le])
  then show ?case
  proof cases
    case 1
    then have "r = scheduleRow env (row_age r) b pyi ev" by simp
    then show ?thesis by blast
  next
    case 2
    then show ?thesis by (rule Suc.hyps(1) [OF n])
  qed
qed

lemma scheduleRow_fields:
  "row_survivalProb (scheduleRow env age b pyi ev) = survivalProbAt env age"
  "row_monthlyPayment (scheduleRow env age b pyi ev) =
     (if js_ge (Fin (of_int age)) (env_retirementAge env) then env_monthlyBenefitNet env else Fin 0)"
  "row_endBal (scheduleRow env age b pyi ev) =
     endBalance (computeYearEndWithTax b (row_monthlyPayment (scheduleRow env age b pyi ev))
       (env_annualRate env) (env_taxPct env) pyi)"
  "row_interestEarned (scheduleRow env age b pyi ev) =
     interestEarned (computeYearEndWithTax b (row_monthlyPayment (scheduleRow env age b pyi ev))
       (env_annualRate env) (env_taxPct env) pyi)"
  "row_expectedValue (scheduleRow env age b pyi ev) =
     (if age = startAge
      then js_mul (row_endBal (scheduleRow env age b pyi ev)) (row_survivalProb (scheduleRow env age b pyi ev))
      else js_add ev (js_mul (js_add (js_mul (row_monthlyPayment (scheduleRow env age b pyi ev)) (Fin 12))
                                     (row_interestEarned (scheduleRow env age b pyi ev)))
                             (row_survivalProb (scheduleRow env age b pyi ev))))"
  by (simp_all add: scheduleRow_def Let_def)

lemma scheduleLoop_nth_age:
  "i < length (scheduleLoop env age b pyi ev []) \<Longrightarrow>
   row_age (scheduleLoop env age b pyi ev [] ! i) = age + int i"
proof -
  assume i: "i < length (scheduleLoop env age b pyi ev [])"
  then have "row_age (scheduleLoop env age b pyi ev [] ! i) = map row_age (scheduleLoop env age b pyi ev []) ! i"
    by simp
  also have "\<dots> = [age..maxAgeBound env] ! i" by (simp only: scheduleLoop_ages)
  also have "\<dots> = age + int i"
    using i length_map [of row_age "scheduleLoop env age b pyi ev []"]
    unfolding scheduleLoop_ages by simp
  finally show ?thesis .
qed

lemma scheduleLoop_endBals:
  "map row_endBal (scheduleLoop env age b pyi ev []) =
   simBalances (env_retirementAge env) (env_monthlyBenefitNet env) (env_annualRate env)
     (env_taxPct env) [age..maxAgeBound env] b pyi"
proof (induction "nat (maxAgeBound env + 1 - age)" arbitrary: age b pyi ev)
  case 0
  then have "\<not> age \<le> maxAgeBound env" by simp
  then show ?case by (simp add: scheduleLoop_stop)
next
  case (Suc n)
  then have le: "age \<le> maxAgeBound env" and n: "n = nat (maxAgeBound env + 1 - (age + 1))"
    by simp_all
  show ?case
    by (simp add: scheduleLoop_Cons [OF le] Suc.hyps(1) [OF n] upto_rec1 [OF le] Let_def
        scheduleRow_fields)
qed

lemma scheduleLoop_expectedValue_NaN:
  "i < length (scheduleLoop env age b pyi ev []) \<Longrightarrow>
   row_expectedValue (scheduleLoop env age b pyi ev [] ! i) = NaN \<Longrightarrow>
   startAge \<le> age \<Longrightarrow> i \<le> j \<Longrightarrow> j < length (scheduleLoop env age b pyi ev []) \<Longrightarrow>
   row_expectedValue (scheduleLoop env age b pyi ev [] ! j) = NaN"
proof (induction j)
  case 0
  then show ?case by simp
next
  case (Suc j)
  show ?case
  proof (cases "i = Suc j")
    case True
    with Suc.prems show ?thesis by simp
  next
    case False
    with Suc.prems have ij: "i \<le> j" and j: "j < length (scheduleLoop env age b pyi ev [])"
      by simp_all
    have prev: "row_expectedValue (scheduleLoop env age b pyi ev [] ! j) = NaN"
      by (rule Suc.IH [OF Suc.prems(1,2,3) ij j])
    have "row_age (scheduleLoop env age b pyi ev [] ! j) + 1 \<noteq> startAge"
      using scheduleLoop_nth_age [OF j] Suc.prems(3) by simp
    then show ?thesis
      by (simp add: scheduleLoop_nth_Suc [OF Suc.prems(5)] scheduleRow_fields(5) prev)
  qed
qed

lemma scheduleRow_expectedValue_NaN:
  "survivalProbAt env age = NaN \<Longrightarrow> row_expectedValue (scheduleRow env age b pyi ev) = NaN"
  by (cases "age = startAge") (simp_all add: scheduleRow_fields(1,5))

lemma scheduleLoop_nth_row:
  "i < length (scheduleLoop env age b pyi ev []) \<Longrightarrow>
   \<exists>b' pyi' ev'. scheduleLoop env age b pyi ev [] ! i = scheduleRow env (age + int i) b' pyi' ev'"
  using scheduleLoop_member [of "scheduleLoop env age b pyi ev [] ! i" env age b pyi ev]
    scheduleLoop_nth_age [of i env age b pyi ev]
  by (metis nth_mem)

lemma run1: "projectionRun form1 today2026 page1 birth1970 table1 100000 65"
  by (simp add: projectionRun_def form1_def page1_def table1_def getAgeYears_def birth1970_def
      today2026_def)

lemma rows1_ages: "map row_age (scheduleRows form1 today2026 page1) = [62, 63, 64, 65]"
  by (simp add: scheduleRows_run(1) [OF run1] scheduleLoop_ages startAge_def upto_rec1)

lemma rows1_length: "length (scheduleRows form1 today2026 page1) = 4"
  using arg_cong [OF rows1_ages, of length] by simp

lemma run2: "projectionRun form1 today2026 page2 birth1970 [56 \<mapsto> 100000] 100000 56"
  by (simp add: projectionRun_def form1_def page2_def page1_def getAgeYears_def birth1970_def
      today2026_def)

text \<open>
  C1: in a run that passes its preconditions, with the inputs as the code resolves them
  and \<open>netMonthlyBenefit = adjust(fullRetirementBenefit, retirementAge) * (1 -
  marginalTaxPct / 100)\<close>, the monthly payment of a row is \<open>netMonthlyBenefit\<close> when the
  row's age is at least the retirement age and zero otherwise; the first row has age 62
  and \<open>expectedValue = endBal * survivalProb\<close>; and every later row has the expected
  value of the row before it plus \<open>(monthlyPayment * 12 + interestEarned) *
  survivalProb\<close>, where \<open>interestEarned\<close> is the interest that the simulation of the
  year returns, from which the April deduction is not subtracted.
\<close>

theorem expectedValue_accumulation:
  "projectionRun f today p birth m baseNum maxAge \<Longrightarrow>
   (let rows = scheduleRows f today p;
        netMonthlyBenefit =
          js_mul (computeAdjustedBenefit (fullRetirementBenefitOf f) (retirementAgeOf f))
            (js_sub (Fin 1) (js_div (taxPctOf f) (Fin 100)))
    in (\<forall>r \<in> set rows.
          row_monthlyPayment r =
          (if js_ge (Fin (of_int (row_age r))) (retirementAgeOf f) then netMonthlyBenefit else Fin 0))
       \<and> (rows \<noteq> [] \<longrightarrow>
            row_age (hd rows) = 62
            \<and> row_expectedValue (hd rows) = js_mul (row_endBal (hd rows)) (row_survivalProb (hd rows)))
       \<and> (\<forall>i. Suc i < length rows \<longrightarrow>
            row_expectedValue (rows ! Suc i) =
              js_add (row_expectedValue (rows ! i))
                (js_mul (js_add (js_mul (row_monthlyPayment (rows ! Suc i)) (Fin 12))
                                (row_interestEarned (rows ! Suc i)))
                        (row_survivalProb (rows ! Suc i)))
            \<and> row_interestEarned (rows ! Suc i) =
                interestEarned (computeYearEndWithTax (row_endBal (rows ! i))
                  (row_monthlyPayment (rows ! Suc i)) (annualRateOf f) (taxPctOf f)
                  (row_interestEarned (rows ! i)))))"
proof -
  assume run: "projectionRun f today p birth m baseNum maxAge"
  define env where "env = runEnv f today birth m baseNum maxAge"
  define rows where "rows = scheduleLoop env startAge (Fin 0) (Fin 0) (Fin 0) []"
  have rows: "scheduleRows f today p = rows"
    unfolding rows_def env_def by (rule scheduleRows_run(1) [OF run])
  have payment: "row_monthlyPayment r =
      (if js_ge (Fin (of_int (row_age r))) (retirementAgeOf f)
       then js_mul (computeAdjustedBenefit (fullRetirementBenefitOf f) (retirementAgeOf f))
              (js_sub (Fin 1) (js_div (taxPctOf f) (Fin 100)))
       else Fin 0)" if "r \<in> set rows" for r
  proof -
    from that obtain b' pyi' ev' where "r = scheduleRow env (row_age r) b' pyi' ev'"
      unfolding rows_def by (blast dest: scheduleLoop_member)
    then have "row_monthlyPayment r = row_monthlyPayment (scheduleRow env (row_age r) b' pyi' ev')"
      by simp
    then show ?thesis
      by (simp add: scheduleRow_fields(2) env_def runEnv_def)
  qed
  have first: "row_age (hd rows) = 62
      \<and> row_expectedValue (hd rows) = js_mul (row_endBal (hd rows)) (row_survivalProb (hd rows))"
    if "rows \<noteq> []"
  proof -
    from that have "hd rows = scheduleRow env startAge (Fin 0) (Fin 0) (Fin 0)"
      unfolding rows_def by (rule scheduleLoop_nth_0)
    then show ?thesis
      by (simp add: scheduleRow_fields(5)) (simp add: startAge_def)
  qed
  have later: "row_expectedValue (rows ! Suc i) =
        js_add (row_expectedValue (rows ! i))
          (js_mul (js_add (js_mul (row_monthlyPayment (rows ! Suc i)) (Fin 12))
                          (row_interestEarned (rows ! Suc i)))
                  (row_survivalProb (rows ! Suc i)))
      \<and> row_interestEarned (rows ! Suc i) =
          interestEarned (computeYearEndWithTax (row_endBal (rows ! i))
            (row_monthlyPayment (rows ! Suc i)) (annualRateOf f) (taxPctOf f)
            (row_interestEarned (rows ! i)))"
    if "Suc i < length rows" for i
  proof -
    from that have i: "i < length rows" by simp
    have age: "row_age (rows ! i) + 1 \<noteq> startAge"
      using scheduleLoop_nth_age [OF i [unfolded rows_def]] by (simp add: rows_def)
    have step: "rows ! Suc i =
        scheduleRow env (row_age (rows ! i) + 1) (row_endBal (rows ! i))
          (row_interestEarned (rows ! i)) (row_expectedValue (rows ! i))"
      using that unfolding rows_def by (rule scheduleLoop_nth_Suc)
    have rate: "env_annualRate env = annualRateOf f" "env_taxPct env = taxPctOf f"
      by (simp_all add: env_def runEnv_def)
    show ?thesis
      unfolding step by (simp add: scheduleRow_fields(4,5) age rate)
  qed
  show ?thesis
    unfolding Let_def rows using payment first later by blast
qed

theorem expectedValue_accumulation_witness:
  "projectionRun form1 today2026 page1 birth1970 table1 100000 65
   \<and> scheduleRows form1 today2026 page1 \<noteq> []
   \<and> row_age (hd (scheduleRows form1 today2026 page1)) = 62
   \<and> row_expectedValue (hd (scheduleRows form1 today2026 page1)) =
       js_mul (row_endBal (hd (scheduleRows form1 today2026 page1)))
         (row_survivalProb (hd (scheduleRows form1 today2026 page1)))
   \<and> Suc 0 < length (scheduleRows form1 today2026 page1)
   \<and> row_expectedValue (scheduleRows form1 today2026 page1 ! Suc 0) =
       js_add (row_expectedValue (scheduleRows form1 today2026 page1 ! 0))
         (js_mul (js_add (js_mul (row_monthlyPayment (scheduleRows form1 today2026 page1 ! Suc 0)) (Fin 12))
                         (row_interestEarned (scheduleRows form1 today2026 page1 ! Suc 0)))
                 (row_survivalProb (scheduleRows form1 today2026 page1 ! Suc 0)))"
proof -
  have ne: "scheduleRows form1 today2026 page1 \<noteq> []" and len: "Suc 0 < length (scheduleRows form1 today2026 page1)"
    using rows1_length by auto
  from expectedValue_accumulation [OF run1, unfolded Let_def] ne len run1
  show ?thesis by blast
qed

text \<open>
  C7: in a run that passes its preconditions, every row whose age is at most the user's
  current age has the survival probability 1; a later row has
  \<open>min 1 (targetNum / baseNum)\<close> when the life table has its age and \<open>baseNum\<close> is
  positive, and otherwise \<open>NaN\<close>, which is not zero and is printed as a dash.
\<close>

theorem survivalProbability_rows:
  "projectionRun f today p birth m baseNum maxAge \<Longrightarrow>
   \<forall>r \<in> set (scheduleRows f today p).
     (row_age r \<le> getAgeYears birth today \<longrightarrow> row_survivalProb r = Fin 1)
     \<and> (getAgeYears birth today < row_age r \<longrightarrow>
          (\<forall>targetNum. m (row_age r) = Some targetNum \<and> 0 < baseNum \<longrightarrow>
             row_survivalProb r = Fin (min 1 (targetNum / baseNum)))
          \<and> (m (row_age r) = None \<or> \<not> 0 < baseNum \<longrightarrow>
               row_survivalProb r = NaN \<and> row_survivalProb r \<noteq> Fin 0
               \<and> fst (snd (rowCells r)) = Dash))"
proof
  fix r
  assume run: "projectionRun f today p birth m baseNum maxAge"
    and r: "r \<in> set (scheduleRows f today p)"
  define env where "env = runEnv f today birth m baseNum maxAge"
  from r obtain b' pyi' ev' where "r = scheduleRow env (row_age r) b' pyi' ev'"
    unfolding scheduleRows_run(1) [OF run] env_def by (blast dest: scheduleLoop_member)
  then have "row_survivalProb r = row_survivalProb (scheduleRow env (row_age r) b' pyi' ev')"
    by simp
  then have prob: "row_survivalProb r = survivalProbAt env (row_age r)"
    by (simp only: scheduleRow_fields(1))
  show "(row_age r \<le> getAgeYears birth today \<longrightarrow> row_survivalProb r = Fin 1)
     \<and> (getAgeYears birth today < row_age r \<longrightarrow>
          (\<forall>targetNum. m (row_age r) = Some targetNum \<and> 0 < baseNum \<longrightarrow>
             row_survivalProb r = Fin (min 1 (targetNum / baseNum)))
          \<and> (m (row_age r) = None \<or> \<not> 0 < baseNum \<longrightarrow>
               row_survivalProb r = NaN \<and> row_survivalProb r \<noteq> Fin 0
               \<and> fst (snd (rowCells r)) = Dash))"
    by (auto simp: prob rowCells_def survivalProbAt_def env_def runEnv_def split: option.splits)
qed

theorem survivalProbability_rows_witness:
  "projectionRun form1 today2026 page1 birth1970 table1 100000 65
   \<and> scheduleRows form1 today2026 page1 ! 1 \<in> set (scheduleRows form1 today2026 page1)
   \<and> getAgeYears birth1970 today2026 < row_age (scheduleRows form1 today2026 page1 ! 1)
   \<and> table1 (row_age (scheduleRows form1 today2026 page1 ! 1)) = Some 80000
   \<and> row_survivalProb (scheduleRows form1 today2026 page1 ! 1) = Fin 0.8
   \<and> scheduleRows form1 today2026 page1 ! 2 \<in> set (scheduleRows form1 today2026 page1)
   \<and> table1 (row_age (scheduleRows form1 today2026 page1 ! 2)) = None
   \<and> row_survivalProb (scheduleRows form1 today2026 page1 ! 2) = NaN"
proof -
  let ?rows = "scheduleRows form1 today2026 page1"
  have mem: "?rows ! 1 \<in> set ?rows" "?rows ! 2 \<in> set ?rows"
    using rows1_length by simp_all
  have "row_age (?rows ! 1) = map row_age ?rows ! 1" "row_age (?rows ! 2) = map row_age ?rows ! 2"
    using rows1_length by simp_all
  then have ages: "row_age (?rows ! 1) = 63" "row_age (?rows ! 2) = 64"
    by (simp_all add: rows1_ages)
  have user: "getAgeYears birth1970 today2026 = 56"
    by (simp add: getAgeYears_def birth1970_def today2026_def)
  have tab: "table1 63 = Some 80000" "table1 64 = None"
    by (simp_all add: table1_def)
  from survivalProbability_rows [OF run1, rule_format, OF mem(1)]
  have "row_survivalProb (?rows ! 1) = Fin (min 1 (80000 / 100000))"
    using ages user tab by simp
  moreover from survivalProbability_rows [OF run1, rule_format, OF mem(2)]
  have "row_survivalProb (?rows ! 2) = NaN"
    using ages user tab by simp
  ultimately show ?thesis
    using run1 mem ages user tab by simp
qed

text \<open>
  The number of rows is not \<open>maxAge - 62 + 1\<close> when the life table ends before age 61:
  with a life table that has the age 56 only, and a user of age 56, the run passes its
  preconditions and the table has no row, where \<open>56 - 62 + 1\<close> is negative.
\<close>

theorem row_count_counterexample:
  "projectionRun form1 today2026 page2 birth1970 [56 \<mapsto> 100000] 100000 56
   \<and> scheduleRows form1 today2026 page2 = []
   \<and> int (length (scheduleRows form1 today2026 page2)) \<noteq> 56 - 62 + 1"
  by (simp add: run2 scheduleRows_run(1) [OF run2] scheduleLoop_stop startAge_def)

text \<open>
  C9, amended: in a run that passes its preconditions, the rows are one row for each age
  from 62 to \<open>maxAge\<close> in increasing order, so there are \<open>max 0 (maxAge - 62 + 1)\<close> of
  them; the first row is the year simulated from the balance zero with a prior-year
  interest of zero, and every later row is the year simulated from the ending balance
  and the interest of the row before it.
\<close>

theorem rows_in_age_order:
  "projectionRun f today p birth m baseNum maxAge \<Longrightarrow>
   (let rows = scheduleRows f today p
    in map row_age rows = [62..maxAge]
       \<and> int (length rows) = max 0 (maxAge - 62 + 1)
       \<and> sorted_wrt (<) (map row_age rows)
       \<and> (rows \<noteq> [] \<longrightarrow>
            computeYearEndWithTax (Fin 0) (row_monthlyPayment (hd rows)) (annualRateOf f) (taxPctOf f)
              (Fin 0) =
            \<lparr>endBalance = row_endBal (hd rows), interestEarned = row_interestEarned (hd rows)\<rparr>)
       \<and> (\<forall>i. Suc i < length rows \<longrightarrow>
            row_age (rows ! Suc i) = row_age (rows ! i) + 1
            \<and> computeYearEndWithTax (row_endBal (rows ! i)) (row_monthlyPayment (rows ! Suc i))
                (annualRateOf f) (taxPctOf f) (row_interestEarned (rows ! i)) =
              \<lparr>endBalance = row_endBal (rows ! Suc i),
               interestEarned = row_interestEarned (rows ! Suc i)\<rparr>))"
proof -
  assume run: "projectionRun f today p birth m baseNum maxAge"
  define env where "env = runEnv f today birth m baseNum maxAge"
  define rows where "rows = scheduleLoop env startAge (Fin 0) (Fin 0) (Fin 0) []"
  have rows: "scheduleRows f today p = rows"
    unfolding rows_def env_def by (rule scheduleRows_run(1) [OF run])
  have rate: "env_annualRate env = annualRateOf f" "env_taxPct env = taxPctOf f"
    by (simp_all add: env_def runEnv_def)
  have ages: "map row_age rows = [62..maxAge]"
    unfolding rows_def by (simp add: scheduleLoop_ages env_def startAge_def)
  have len: "int (length rows) = max 0 (maxAge - 62 + 1)"
    using arg_cong [OF ages, of length] by simp
  have sorted: "sorted_wrt (<) (map row_age rows)"
    by (simp only: ages sorted_wrt_upto)
  have first: "computeYearEndWithTax (Fin 0) (row_monthlyPayment (hd rows)) (annualRateOf f)
        (taxPctOf f) (Fin 0) =
      \<lparr>endBalance = row_endBal (hd rows), interestEarned = row_interestEarned (hd rows)\<rparr>"
    if "rows \<noteq> []"
  proof -
    from that have hd: "hd rows = scheduleRow env startAge (Fin 0) (Fin 0) (Fin 0)"
      unfolding rows_def by (rule scheduleLoop_nth_0)
    show ?thesis
      unfolding hd by (simp add: scheduleRow_fields(3,4) rate)
  qed
  have later: "row_age (rows ! Suc i) = row_age (rows ! i) + 1
      \<and> computeYearEndWithTax (row_endBal (rows ! i)) (row_monthlyPayment (rows ! Suc i))
          (annualRateOf f) (taxPctOf f) (row_interestEarned (rows ! i)) =
        \<lparr>endBalance = row_endBal (rows ! Suc i),
         interestEarned = row_interestEarned (rows ! Suc i)\<rparr>"
    if "Suc i < length rows" for i
  proof -
    have step: "rows ! Suc i =
        scheduleRow env (row_age (rows ! i) + 1) (row_endBal (rows ! i))
          (row_interestEarned (rows ! i)) (row_expectedValue (rows ! i))"
      using that unfolding rows_def by (rule scheduleLoop_nth_Suc)
    show ?thesis
      unfolding step by (simp add: scheduleRow_fields(3,4) rate)
  qed
  show ?thesis
    unfolding Let_def rows using ages len sorted first later by blast
qed

theorem rows_in_age_order_witness:
  "projectionRun form1 today2026 page1 birth1970 table1 100000 65
   \<and> map row_age (scheduleRows form1 today2026 page1) = [62, 63, 64, 65]
   \<and> int (length (scheduleRows form1 today2026 page1)) = 4
   \<and> projectionRun form1 today2026 page2 birth1970 [56 \<mapsto> 100000] 100000 56
   \<and> int (length (scheduleRows form1 today2026 page2)) = 0"
proof -
  from rows_in_age_order [OF run1, unfolded Let_def]
  have "map row_age (scheduleRows form1 today2026 page1) = [62..65]"
    and "int (length (scheduleRows form1 today2026 page1)) = max 0 (65 - 62 + 1)"
    by blast+
  moreover from rows_in_age_order [OF run2, unfolded Let_def]
  have "int (length (scheduleRows form1 today2026 page2)) = max 0 (56 - 62 + 1)"
    by blast
  ultimately show ?thesis
    using run1 run2 by (simp add: upto_rec1)
qed

text \<open>
  C10: in a run that passes its preconditions, if a row later than the user's current age
  has its age missing from the life table, or \<open>baseNum\<close> is zero (or less), then its
  survival probability is \<open>NaN\<close>, and its expected value and that of every row after it
  are \<open>NaN\<close>; and the ending balances of the rows are those of the ordinary simulation,
  in which no probability occurs.
\<close>

theorem unknown_probability_poisons:
  "projectionRun f today p birth m baseNum maxAge \<Longrightarrow>
   (let rows = scheduleRows f today p
    in (\<forall>i < length rows.
          getAgeYears birth today < row_age (rows ! i)
          \<and> (m (row_age (rows ! i)) = None \<or> baseNum \<le> 0) \<longrightarrow>
          row_survivalProb (rows ! i) = NaN
          \<and> (\<forall>j. i \<le> j \<and> j < length rows \<longrightarrow> row_expectedValue (rows ! j) = NaN))
       \<and> map row_endBal rows =
           simBalances (retirementAgeOf f)
             (js_mul (computeAdjustedBenefit (fullRetirementBenefitOf f) (retirementAgeOf f))
                (js_sub (Fin 1) (js_div (taxPctOf f) (Fin 100))))
             (annualRateOf f) (taxPctOf f) [62..maxAge] (Fin 0) (Fin 0))"
proof -
  assume run: "projectionRun f today p birth m baseNum maxAge"
  define env where "env = runEnv f today birth m baseNum maxAge"
  define rows where "rows = scheduleLoop env startAge (Fin 0) (Fin 0) (Fin 0) []"
  have rows: "scheduleRows f today p = rows"
    unfolding rows_def env_def by (rule scheduleRows_run(1) [OF run])
  have poison: "row_survivalProb (rows ! i) = NaN
      \<and> (\<forall>j. i \<le> j \<and> j < length rows \<longrightarrow> row_expectedValue (rows ! j) = NaN)"
    if i: "i < length rows" and later: "getAgeYears birth today < row_age (rows ! i)"
      and missing: "m (row_age (rows ! i)) = None \<or> baseNum \<le> 0" for i
  proof -
    from i obtain b' pyi' ev' where
      row: "rows ! i = scheduleRow env (startAge + int i) b' pyi' ev'"
      unfolding rows_def by (blast dest: scheduleLoop_nth_row)
    from later missing have prob: "survivalProbAt env (startAge + int i) = NaN"
      unfolding row by (auto simp: survivalProbAt_def env_def runEnv_def split: option.splits)
    have "row_survivalProb (rows ! i) = NaN"
      unfolding row by (simp add: scheduleRow_fields(1) prob)
    moreover have here: "row_expectedValue (rows ! i) = NaN"
      unfolding row by (rule scheduleRow_expectedValue_NaN [OF prob])
    have "row_expectedValue (rows ! j) = NaN" if "i \<le> j" "j < length rows" for j
      using i here that unfolding rows_def
      by (intro scheduleLoop_expectedValue_NaN [of i _ _ _ _ _ j]) simp_all
    ultimately show ?thesis by blast
  qed
  have bal: "map row_endBal rows =
      simBalances (retirementAgeOf f)
        (js_mul (computeAdjustedBenefit (fullRetirementBenefitOf f) (retirementAgeOf f))
           (js_sub (Fin 1) (js_div (taxPctOf f) (Fin 100))))
        (annualRateOf f) (taxPctOf f) [62..maxAge] (Fin 0) (Fin 0)"
    unfolding rows_def scheduleLoop_endBals
    by (simp add: env_def runEnv_def startAge_def maxAgeBound_def)
  show ?thesis
    unfolding Let_def rows using poison bal by blast
qed

theorem unknown_probability_poisons_witness:
  "projectionRun form1 today2026 page1 birth1970 table1 100000 65
   \<and> 2 < length (scheduleRows form1 today2026 page1)
   \<and> getAgeYears birth1970 today2026 < row_age (scheduleRows form1 today2026 page1 ! 2)
   \<and> table1 (row_age (scheduleRows form1 today2026 page1 ! 2)) = None
   \<and> row_survivalProb (scheduleRows form1 today2026 page1 ! 2) = NaN
   \<and> row_expectedValue (scheduleRows form1 today2026 page1 ! 2) = NaN
   \<and> 3 < length (scheduleRows form1 today2026 page1)
   \<and> row_survivalProb (scheduleRows form1 today2026 page1 ! 3) = Fin 0.6
   \<and> row_expectedValue (scheduleRows form1 today2026 page1 ! 3) = NaN"
proof -
  let ?rows = "scheduleRows form1 today2026 page1"
  have len: "2 < length ?rows" "3 < length ?rows"
    using rows1_length by simp_all
  then have "row_age (?rows ! 2) = map row_age ?rows ! 2" "row_age (?rows ! 3) = map row_age ?rows ! 3"
    by simp_all
  then have age: "row_age (?rows ! 2) = 64" "row_age (?rows ! 3) = 65"
    by (simp_all add: rows1_ages)
  have user: "getAgeYears birth1970 today2026 = 56"
    by (simp add: getAgeYears_def birth1970_def today2026_def)
  have tab: "table1 64 = None"
    by (simp add: table1_def)
  have hyp: "getAgeYears birth1970 today2026 < row_age (?rows ! 2)
      \<and> (table1 (row_age (?rows ! 2)) = None \<or> (100000 :: real) \<le> 0)"
    by (simp add: age user tab)
  have poison: "row_survivalProb (?rows ! 2) = NaN
      \<and> (\<forall>j. 2 \<le> j \<and> j < length ?rows \<longrightarrow> row_expectedValue (?rows ! j) = NaN)"
    by (rule conjunct1 [OF unknown_probability_poisons [OF run1, unfolded Let_def], rule_format,
          OF len(1) hyp])
  then have "row_expectedValue (?rows ! 2) = NaN" "row_expectedValue (?rows ! 3) = NaN"
    using len by simp_all
  with poison have nan: "row_survivalProb (?rows ! 2) = NaN \<and> row_expectedValue (?rows ! 2) = NaN
      \<and> row_expectedValue (?rows ! 3) = NaN"
    by simp
  obtain b' pyi' ev' where
    "?rows ! 3 = scheduleRow (runEnv form1 today2026 birth1970 table1 100000 65) (startAge + int 3) b' pyi' ev'"
    using scheduleLoop_nth_row [of 3] len(2) unfolding scheduleRows_run(1) [OF run1] by blast
  then have "row_survivalProb (?rows ! 3) = Fin 0.6"
    by (simp add: scheduleRow_fields(1) survivalProbAt_def runEnv_def user table1_def startAge_def)
  with nan show ?thesis
    using run1 len age user tab by simp
qed

end
